theory Spec2Isabelle
  imports Complex_Main "HOL-Library.Log_Nat"
begin

text \<open>
  The API route of the repository card: \<open>handler\<close> (the route), \<open>fetchStats\<close> and
  \<open>statsFetcher\<close> (\<open>utils/fetchers.ts\<close>), and \<open>clampValue\<close>, \<open>encodeHTML\<close>,
  \<open>renderError\<close>, \<open>wrapTextMultiline\<close>, \<open>CustomError\<close> and \<open>MissingParamError\<close>
  (\<open>utils/common.ts\<close>), as functions over the values of the JavaScript runtime.
  Exceptions are values of a sum type, and a function that reaches the network returns
  the outbound calls it made beside its result. Writing to the console (\<open>logger\<close>,
  \<open>console.log\<close>) changes no result and is left out, as is the unused \<open>info\<close> object
  of \<open>fetchStats\<close>.
\<close>

section \<open>Values of the JavaScript runtime\<close>

text \<open>
  A JavaScript string is a sequence of UTF-16 code units; \<open>length\<close>, \<open>charCodeAt\<close>,
  \<open>split\<close> and the regular expressions of the source all count code units. A string
  is modelled as the list of its code units, and \<open>js\<close> turns an ASCII literal into one.
\<close>

type_synonym jsstring = "nat list"

definition js :: "string \<Rightarrow> jsstring" where
  "js s = map of_char s"

text \<open>
  A Number is NaN, an infinity or a finite value. Finite doubles are rationals, and
  \<open>Math.min\<close>, \<open>Math.max\<close> and the comparisons return or compare their arguments
  without rounding, so they are exact on \<open>Fin\<close>. Negative zero is identified with zero
  (both are falsy, both print as \<open>0\<close>).
\<close>

datatype jsnum = NaN | PosInf | NegInf | Fin rat

text \<open>
  The value of a property read: a string, \<open>undefined\<close>, or a member that a plain object
  inherits from \<open>Object.prototype\<close> (named by its key).
\<close>

datatype jsval = Undefined | Str jsstring | Inherited jsstring

section \<open>Errors, requests and responses\<close>

text \<open>
  The values a \<open>catch\<close> can receive. \<open>MissingParamError\<close> keeps its
  \<open>missedParams\<close> and optional \<open>secondaryMessage\<close>; \<open>CustomError\<close> keeps its message,
  its \<open>type\<close> and the \<open>secondaryMessage\<close> its constructor computed; \<open>TypeError\<close> is
  the engine's error for a property read on \<open>undefined\<close> or \<open>null\<close>; \<open>OtherError\<close> is any
  other thrown value whose properties can be read, with its \<open>message\<close> and
  \<open>secondaryMessage\<close>; \<open>ThrownNull\<close> and \<open>ThrownUndefined\<close> are a thrown \<open>null\<close> and a
  thrown \<open>undefined\<close>, which have no properties.
\<close>

datatype error =
    MissingParamError "jsstring list" "jsstring option"
  | CustomError jsstring jsstring jsval
  | TypeError jsstring
  | OtherError jsval jsval
  | ThrownNull
  | ThrownUndefined

text \<open>An entry of the GraphQL \<open>errors\<close> array; \<open>None\<close> is an absent field.\<close>

record gqlError =
  type :: "jsstring option"
  message :: "jsstring option"

text \<open>
  The response the retryer returns: \<open>res.data.errors\<close> (\<open>None\<close> when the body has no
  \<open>errors\<close> field), \<open>res.statusText\<close>, and everything else of the envelope and body.
\<close>

record 'd response =
  errors :: "gqlError list option"
  statusText :: jsstring
  rest :: 'd

text \<open>The GraphQL variables; \<open>None\<close> is \<open>undefined\<close>.\<close>

record variables =
  owner :: "jsstring option"
  name :: "jsstring option"

text \<open>
  What the source uses and this repository's files under \<open>src/\<close> do not define:
  \<^item> \<open>wrap\<close>: the \<open>word-wrap\<close> package, called as \<open>wrap(text, {width})\<close>;
  \<^item> \<open>retryer\<close>: \<open>./retryer\<close> applied to the fetcher, the outcome of the outbound
    request for the given variables (a thrown error or the response);
  \<^item> \<open>foldsIntoClass\<close>: the code units outside the character class of \<open>encodeHTML\<close>
    that its \<open>i\<close> flag makes match (those the engine's case folding identifies with a
    member of the class);
  \<^item> \<open>formatNumber\<close>: the engine's Number-to-string conversion of the finite values
    that are neither integers nor halves of integers up to \<open>2 ^ 53\<close>;
  \<^item> \<open>inheritedToString\<close>: \<open>String(v)\<close> of a member inherited from
    \<open>Object.prototype\<close>;
  \<^item> \<open>undefinedReadMessage\<close> and \<open>nullReadMessage\<close>: the message of the engine's
    TypeError for reading the given property of \<open>undefined\<close> and of \<open>null\<close>;
  \<^item> \<open>jsonThrows\<close>: the framework's \<open>res.json\<close> on the given value, \<open>None\<close> when it
    returns and the value it throws when it does not (the value is the whole response
    of the retryer, which the framework has to serialise);
  \<^item> \<open>CACHE_SECONDS\<close>: \<open>process.env.CACHE_SECONDS\<close>.
\<close>

record 'd externals =
  wrap :: "jsstring \<Rightarrow> nat \<Rightarrow> jsstring"
  retryer :: "variables \<Rightarrow> error + 'd response"
  foldsIntoClass :: "nat \<Rightarrow> bool"
  formatNumber :: "rat \<Rightarrow> jsstring"
  inheritedToString :: "jsstring \<Rightarrow> jsstring"
  undefinedReadMessage :: "jsstring \<Rightarrow> jsstring"
  nullReadMessage :: "jsstring \<Rightarrow> jsstring"
  jsonThrows :: "'d response \<Rightarrow> error option"
  CACHE_SECONDS :: "jsstring option"

text \<open>
  A value of \<open>req.query\<close>: a string or an array of strings. The request is its
  \<open>repo\<close> and \<open>cache_seconds\<close> parameters; \<open>None\<close> is a parameter not given.
\<close>

datatype queryValue = QStr jsstring | QArr "jsstring list"

record request =
  query_repo :: "queryValue option"
  query_cache_seconds :: "queryValue option"

text \<open>
  How the handler ended: \<open>res.json(stats)\<close> returned, \<open>res.send(svg)\<close> was called, or
  the handler itself threw out of its \<open>catch\<close> block and sent nothing.
\<close>

datatype 'd body = Json "'d response" | Sent jsstring | Threw error

record 'd httpResponse =
  headers :: "(jsstring \<times> jsstring) list"
  body :: "'d body"

section \<open>Strings\<close>

text \<open>WhiteSpace and LineTerminator code units: what \<open>trim\<close> and \<open>parseInt\<close> skip.\<close>

definition isWhiteSpace :: "nat \<Rightarrow> bool" where
  "isWhiteSpace c \<longleftrightarrow>
     c \<in> {9, 10, 11, 12, 13, 32, 160, 5760, 8232, 8233, 8239, 8287, 12288, 65279}
     \<or> (8192 \<le> c \<and> c \<le> 8202)"

definition trim :: "jsstring \<Rightarrow> jsstring" where
  "trim s = rev (dropWhile isWhiteSpace (rev (dropWhile isWhiteSpace s)))"

definition startsWith :: "jsstring \<Rightarrow> jsstring \<Rightarrow> bool" where
  "startsWith s sep \<longleftrightarrow> take (length sep) s = sep"

text \<open>\<open>s.includes(sep)\<close>.\<close>

fun includes_str :: "jsstring \<Rightarrow> jsstring \<Rightarrow> bool" where
  "includes_str [] sep = (sep = [])"
| "includes_str (c # cs) sep = (startsWith (c # cs) sep \<or> includes_str cs sep)"

text \<open>
  \<open>s.split(sep)\<close> for a string separator: the pieces between the successive occurrences
  of \<open>sep\<close>, found from the left; \<open>acc\<close> holds the current piece, reversed. An empty
  separator splits into single code units.
\<close>

function split_from :: "jsstring \<Rightarrow> jsstring \<Rightarrow> jsstring \<Rightarrow> jsstring list" where
  "split_from sep acc [] = [rev acc]"
| "split_from sep acc (c # cs) =
     (if sep \<noteq> [] \<and> startsWith (c # cs) sep
      then rev acc # split_from sep [] (drop (length sep) (c # cs))
      else split_from sep (c # acc) cs)"
  by pat_completeness auto
termination
  by (relation "measure (\<lambda>(sep, acc, s). length s)") (auto simp: neq_Nil_conv)

definition split :: "jsstring \<Rightarrow> jsstring \<Rightarrow> jsstring list" where
  "split s sep = (if sep = [] then map (\<lambda>c. [c]) s else split_from sep [] s)"

text \<open>\<open>xs.join(sep)\<close>.\<close>

fun join :: "jsstring list \<Rightarrow> jsstring \<Rightarrow> jsstring" where
  "join [] sep = []"
| "join [x] sep = x"
| "join (x # y # ys) sep = x @ sep @ join (y # ys) sep"

text \<open>\<open>xs[i]\<close> read from an array: \<open>undefined\<close> out of range.\<close>

definition elemAt :: "'a list \<Rightarrow> nat \<Rightarrow> 'a option" where
  "elemAt xs i = (if i < length xs then Some (xs ! i) else None)"

text \<open>The decimal digits of a natural number.\<close>

fun decimal :: "nat \<Rightarrow> jsstring" where
  "decimal n = (if n < 10 then [48 + n] else decimal (n div 10) @ [48 + n mod 10])"

declare decimal.simps [simp del]

section \<open>Numbers\<close>

text \<open>The comparisons \<open><\<close> and \<open><=\<close> of Numbers: false when an operand is NaN.\<close>

fun lessNum :: "jsnum \<Rightarrow> jsnum \<Rightarrow> bool" where
  "lessNum NaN _ = False"
| "lessNum _ NaN = False"
| "lessNum _ NegInf = False"
| "lessNum NegInf _ = True"
| "lessNum PosInf _ = False"
| "lessNum _ PosInf = True"
| "lessNum (Fin a) (Fin b) = (a < b)"

fun leNum :: "jsnum \<Rightarrow> jsnum \<Rightarrow> bool" where
  "leNum NaN _ = False"
| "leNum _ NaN = False"
| "leNum NegInf _ = True"
| "leNum _ NegInf = False"
| "leNum _ PosInf = True"
| "leNum PosInf _ = False"
| "leNum (Fin a) (Fin b) = (a \<le> b)"

text \<open>\<open>Math.min\<close> and \<open>Math.max\<close> of two Numbers: NaN when an argument is NaN.\<close>

definition mathMin :: "jsnum \<Rightarrow> jsnum \<Rightarrow> jsnum" where
  "mathMin a b = (if a = NaN \<or> b = NaN then NaN else if lessNum b a then b else a)"

definition mathMax :: "jsnum \<Rightarrow> jsnum \<Rightarrow> jsnum" where
  "mathMax a b = (if a = NaN \<or> b = NaN then NaN else if lessNum a b then b else a)"

text \<open>\<open>n / 2\<close>.\<close>

fun half :: "jsnum \<Rightarrow> jsnum" where
  "half (Fin q) = Fin (q / 2)"
| "half n = n"

text \<open>Truthiness of a Number: NaN and zero are falsy.\<close>

definition truthyNum :: "jsnum \<Rightarrow> bool" where
  "truthyNum n \<longleftrightarrow> n \<noteq> NaN \<and> n \<noteq> Fin 0"

text \<open>
  The Number nearest to a natural number (round to nearest, ties to even, 53 significant
  bits); \<open>None\<close> when it rounds to \<open>2 ^ 1024\<close>, beyond the finite doubles.
\<close>

definition roundNat :: "nat \<Rightarrow> nat option" where
  "roundNat m =
     (if m < 2 ^ 53 then Some m
      else
        let e = floorlog 2 m - 53;
            q = m div 2 ^ e;
            r = m mod 2 ^ e;
            h = 2 ^ (e - 1);
            q' = (if h < r \<or> (r = h \<and> odd q) then q + 1 else q);
            v = q' * 2 ^ e
        in if 2 ^ 1024 \<le> v then None else Some v)"

definition isDigit :: "nat \<Rightarrow> bool" where
  "isDigit c \<longleftrightarrow> 48 \<le> c \<and> c \<le> 57"

text \<open>The value of a string of decimal digits.\<close>

definition digitsValue :: "jsstring \<Rightarrow> nat" where
  "digitsValue z = foldl (\<lambda>v c. 10 * v + (c - 48)) 0 z"

text \<open>The Number for a sign and the magnitude read: an infinity beyond the finite doubles.\<close>

definition toNumber :: "bool \<Rightarrow> nat \<Rightarrow> jsnum" where
  "toNumber neg m =
     (case roundNat m of
        None \<Rightarrow> (if neg then NegInf else PosInf)
      | Some v \<Rightarrow> Fin (if neg then - of_nat v else of_nat v))"

text \<open>
  \<open>parseInt(s, 10)\<close>: leading white space is skipped, one sign is read, then the longest
  run of decimal digits; NaN when there is none. The radix is given, so no \<open>0x\<close> prefix
  is stripped. The result is the Number nearest to the integer read (the language
  lets an engine round after the twentieth significant digit; the correctly rounded
  value is modelled).
\<close>

definition parseInt :: "jsstring \<Rightarrow> jsnum" where
  "parseInt s =
     (let t = dropWhile isWhiteSpace s;
          neg = (t \<noteq> [] \<and> hd t = 45);
          u = (if t \<noteq> [] \<and> (hd t = 45 \<or> hd t = 43) then tl t else t);
          z = takeWhile isDigit u
      in if z = [] then NaN else toNumber neg (digitsValue z))"

text \<open>
  \<open>String(n)\<close> of a Number. Integers up to \<open>2 ^ 53\<close> in magnitude print as their decimal
  digits and their halves with \<open>.5\<close>; every other finite value is left to the engine.
\<close>

definition numToString :: "'d externals \<Rightarrow> jsnum \<Rightarrow> jsstring" where
  "numToString ext n =
     (case n of
        NaN \<Rightarrow> js ''NaN''
      | PosInf \<Rightarrow> js ''Infinity''
      | NegInf \<Rightarrow> js ''-Infinity''
      | Fin q \<Rightarrow>
          (let a = fst (quotient_of q);
               b = snd (quotient_of q);
               sign = (if a < 0 then js ''-'' else [])
           in if b = 1 \<and> \<bar>a\<bar> \<le> 2 ^ 53 then sign @ decimal (nat \<bar>a\<bar>)
              else if b = 2 \<and> \<bar>a\<bar> \<le> 2 ^ 53 then sign @ decimal (nat \<bar>a\<bar> div 2) @ js ''.5''
              else formatNumber ext q))"

text \<open>
  \<open>Number.isNaN(parseInt(number))\<close> for a Number argument: \<open>parseInt\<close> reads
  \<open>String(number)\<close>, which for a finite value starts with its digits (after a sign) and
  for the others is \<open>NaN\<close>, \<open>Infinity\<close> or \<open>-Infinity\<close>, where no digit is found.
\<close>

fun parseIntIsNaN :: "jsnum \<Rightarrow> bool" where
  "parseIntIsNaN (Fin q) = False"
| "parseIntIsNaN n = True"

section \<open>common.ts\<close>

definition clampValue :: "jsnum \<Rightarrow> jsnum \<Rightarrow> jsnum \<Rightarrow> jsnum" where
  "clampValue number mn mx =
     (if parseIntIsNaN number then mn else mathMax mn (mathMin number mx))"

definition FOUR_HOURS :: jsnum where
  "FOUR_HOURS = Fin 14400"

definition ONE_DAY :: jsnum where
  "ONE_DAY = Fin 86400"

definition ERROR_CARD_LENGTH :: jsnum where
  "ERROR_CARD_LENGTH = Fin (1153 / 2)"

text \<open>
  The character class of \<open>encodeHTML\<close> (the code units U+00A0 to U+9999, and
  \<open><\<close>, \<open>>\<close>, \<open>&\<close>), read with the \<open>i\<close> flag.
\<close>

definition inClass :: "'d externals \<Rightarrow> nat \<Rightarrow> bool" where
  "inClass ext c \<longleftrightarrow>
     (160 \<le> c \<and> c \<le> 39321) \<or> c = 60 \<or> c = 62 \<or> c = 38 \<or> foldsIntoClass ext c"

text \<open>
  The first \<open>replace\<close> of \<open>encodeHTML\<close>: every code unit of the class that is not
  followed by \<open>#\<close> becomes \<open>&#\<close>, its code in decimal and \<open>;\<close>. The matches are single
  code units of the original string, so the replacement is a pass over it.
\<close>

fun encodeEntities :: "'d externals \<Rightarrow> jsstring \<Rightarrow> jsstring" where
  "encodeEntities ext [] = []"
| "encodeEntities ext (c # cs) =
     (if inClass ext c \<and> (cs = [] \<or> hd cs \<noteq> 35)
      then js ''&#'' @ decimal c @ js '';''
      else [c]) @ encodeEntities ext cs"

text \<open>The second \<open>replace\<close> removes every backspace (U+0008).\<close>

definition encodeHTML :: "'d externals \<Rightarrow> jsstring \<Rightarrow> jsstring" where
  "encodeHTML ext str = filter (\<lambda>c. c \<noteq> 8) (encodeEntities ext str)"

text \<open>Subtraction of Numbers, as \<open>renderError\<close> uses it: a finite amount is taken off.\<close>

fun minusNum :: "jsnum \<Rightarrow> rat \<Rightarrow> jsnum" where
  "minusNum (Fin q) d = Fin (q - d)"
| "minusNum n d = n"

text \<open>
  \<open>renderError\<close>. The template literal is cut at the two places where the messages
  are put in: the card up to the first \<open>tspan\<close>, the text between the two messages, and
  the rest. The card's width and the width less one are Numbers, printed into the head.
\<close>

definition errorCardHead :: "'d externals \<Rightarrow> jsstring" where
  \<open>errorCardHead ext =
     js ''\<newline>    <svg width="'' @ numToString ext ERROR_CARD_LENGTH
     @ js ''" height="120" viewBox="0 0 '' @ numToString ext ERROR_CARD_LENGTH
     @ js '' 120" fill="none" xmlns="http://www.w3.org/2000/svg">\<newline>''
     @ js ''    <style>\<newline>''
     @ js ''    .text { font: 600 16px 'Segoe UI', Ubuntu, Sans-Serif; fill: #2F80ED }\<newline>''
     @ js ''    .small { font: 600 12px 'Segoe UI', Ubuntu, Sans-Serif; fill: #252525 }\<newline>''
     @ js ''    .gray { fill: #858585 }\<newline>''
     @ js ''    </style>\<newline>''
     @ js ''    <rect x="0.5" y="0.5" width="'' @ numToString ext (minusNum ERROR_CARD_LENGTH 1)
     @ js ''" height="99%" rx="4.5" fill="#FFFEFE" stroke="#E4E2E2"/>\<newline>''
     @ js ''    <text x="25" y="45" class="text">Something went wrong! file an issue at moonrailgun/github-repository-card</text>\<newline>''
     @ js ''    <text data-testid="message" x="25" y="55" class="text small">\<newline>''
     @ js ''      <tspan x="25" dy="18">''\<close>

definition errorCardMiddle :: jsstring where
  \<open>errorCardMiddle =
     js ''</tspan>\<newline>''
     @ js ''      <tspan x="25" dy="18" class="gray">''\<close>

definition errorCardTail :: jsstring where
  \<open>errorCardTail =
     js ''</tspan>\<newline>''
     @ js ''    </text>\<newline>''
     @ js ''    </svg>\<newline>''
     @ js ''  ''\<close>

definition renderError :: "'d externals \<Rightarrow> jsstring \<Rightarrow> jsstring \<Rightarrow> jsstring" where
  "renderError ext msg secondaryMessage =
     errorCardHead ext @ encodeHTML ext msg @ errorCardMiddle @ secondaryMessage
     @ errorCardTail"

text \<open>
  \<open>SECONDARY_ERROR_MESSAGES\<close>, a plain object: its own properties, in the order of the
  source.
\<close>

definition SECONDARY_ERROR_MESSAGES :: "(jsstring \<times> jsstring) list" where
  "SECONDARY_ERROR_MESSAGES =
     [(js ''MAX_RETRY'',
         js ''Please add an env variable called PAT_1 with your github token in vercel''),
      (js ''USER_NOT_FOUND'', js ''Make sure the provided username is not an organization''),
      (js ''GRAPHQL_ERROR'', js ''Please try again later''),
      (js ''WAKATIME_USER_NOT_FOUND'', js ''Make sure you have a public WakaTime profile'')]"

text \<open>The property names every plain object inherits from \<open>Object.prototype\<close>.\<close>

definition objectPrototypeNames :: "jsstring list" where
  "objectPrototypeNames =
     [js ''constructor'', js ''hasOwnProperty'', js ''isPrototypeOf'',
      js ''propertyIsEnumerable'', js ''toLocaleString'', js ''toString'', js ''valueOf'',
      js ''__proto__'', js ''__defineGetter__'', js ''__defineSetter__'',
      js ''__lookupGetter__'', js ''__lookupSetter__'']"

text \<open>
  \<open>obj[key]\<close> on a plain object with string values: an own property, else a member
  found on the prototype, else \<open>undefined\<close>.
\<close>

definition getProperty :: "(jsstring \<times> jsstring) list \<Rightarrow> jsstring \<Rightarrow> jsval" where
  "getProperty obj key =
     (case map_of obj key of
        Some v \<Rightarrow> Str v
      | None \<Rightarrow> if key \<in> set objectPrototypeNames then Inherited key else Undefined)"

fun truthy :: "jsval \<Rightarrow> bool" where
  "truthy Undefined = False"
| "truthy (Str s) = (s \<noteq> [])"
| "truthy (Inherited k) = True"

definition MAX_RETRY :: jsstring where
  "MAX_RETRY = js ''MAX_RETRY''"

definition USER_NOT_FOUND :: jsstring where
  "USER_NOT_FOUND = js ''USER_NOT_FOUND''"

definition GRAPHQL_ERROR :: jsstring where
  "GRAPHQL_ERROR = js ''GRAPHQL_ERROR''"

definition WAKATIME_ERROR :: jsstring where
  "WAKATIME_ERROR = js ''WAKATIME_ERROR''"

text \<open>
  \<open>new CustomError(message, type)\<close>. The message may be \<open>undefined\<close> (\<open>None\<close>), and
  then \<open>err.message\<close> is the empty string of \<open>Error.prototype\<close>. The secondary message
  is \<open>SECONDARY_ERROR_MESSAGES[type] || type\<close>.
\<close>

definition newCustomError :: "jsstring option \<Rightarrow> jsstring \<Rightarrow> error" where
  "newCustomError msg ty =
     CustomError (case msg of None \<Rightarrow> [] | Some m \<Rightarrow> m) ty
       (let v = getProperty SECONDARY_ERROR_MESSAGES ty in if truthy v then v else Str ty)"

text \<open>The message \<open>MissingParamError\<close> passes to \<open>Error\<close>.\<close>

definition missingParamMessage :: "jsstring list \<Rightarrow> jsstring" where
  \<open>missingParamMessage missedParams =
     js ''Missing params '' @ join (map (\<lambda>p. js ''"'' @ p @ js ''"'') missedParams) (js '', '')
     @ js '' make sure you pass the parameters in URL''\<close>

text \<open>
  \<open>err.message\<close> and \<open>err.secondaryMessage\<close> of a caught value; \<open>None\<close> when the read
  throws, which it does on \<open>null\<close> and \<open>undefined\<close>.
\<close>

fun messageOf :: "error \<Rightarrow> jsval option" where
  "messageOf (MissingParamError ps s) = Some (Str (missingParamMessage ps))"
| "messageOf (CustomError m ty s) = Some (Str m)"
| "messageOf (TypeError m) = Some (Str m)"
| "messageOf (OtherError m s) = Some m"
| "messageOf ThrownNull = None"
| "messageOf ThrownUndefined = None"

fun secondaryMessageOf :: "error \<Rightarrow> jsval option" where
  "secondaryMessageOf (MissingParamError ps s) =
     Some (case s of None \<Rightarrow> Undefined | Some t \<Rightarrow> Str t)"
| "secondaryMessageOf (CustomError m ty s) = Some s"
| "secondaryMessageOf (TypeError m) = Some Undefined"
| "secondaryMessageOf (OtherError m s) = Some s"
| "secondaryMessageOf ThrownNull = None"
| "secondaryMessageOf ThrownUndefined = None"

text \<open>\<open>String(v)\<close>.\<close>

fun toString :: "'d externals \<Rightarrow> jsval \<Rightarrow> jsstring" where
  "toString ext Undefined = js ''undefined''"
| "toString ext (Str s) = s"
| "toString ext (Inherited k) = inheritedToString ext k"

text \<open>\<open>parseString\<close>: the empty string for a falsy input, else \<open>String(input)\<close>.\<close>

fun queryTruthy :: "queryValue option \<Rightarrow> bool" where
  "queryTruthy None = False"
| "queryTruthy (Some (QStr s)) = (s \<noteq> [])"
| "queryTruthy (Some (QArr xs)) = True"

fun queryToString :: "queryValue \<Rightarrow> jsstring" where
  "queryToString (QStr s) = s"
| "queryToString (QArr xs) = join xs (js '','')"

definition parseString :: "queryValue option \<Rightarrow> jsstring" where
  "parseString input =
     (if \<not> queryTruthy input then [] else queryToString (the input))"

definition fullWidthComma :: jsstring where
  "fullWidthComma = [239, 188, 338]"

text \<open>
  The array \<open>wrapped\<close> of \<open>wrapTextMultiline\<close>: the encoded text split at the
  \<open>fullWidthComma\<close> constant when it holds one, else the lines of the wrapped text.
\<close>

definition wrappedLines :: "'d externals \<Rightarrow> jsstring \<Rightarrow> nat \<Rightarrow> jsstring list" where
  "wrappedLines ext text width =
     (let encoded = encodeHTML ext text;
          isChinese = includes_str encoded fullWidthComma
      in if isChinese then split encoded fullWidthComma
         else split (wrap ext encoded width) [10])"

text \<open>
  \<open>wrapTextMultiline(text, width, maxLines)\<close>. When more lines were wrapped than
  \<open>maxLines\<close>, \<open>lines\<close> has exactly \<open>maxLines\<close> entries and the last of them gets the
  dots; for \<open>maxLines = 0\<close> the source writes a property \<open>-1\<close> that is no element of the
  array, and \<open>lines\<close> stays empty, as the update of the empty list does here.
\<close>

definition wrapTextMultiline :: "'d externals \<Rightarrow> jsstring \<Rightarrow> nat \<Rightarrow> nat \<Rightarrow> jsstring list" where
  "wrapTextMultiline ext text width maxLines =
     (let wrapped = wrappedLines ext text width;
          lines = take maxLines (map trim wrapped);
          lines' = (if maxLines < length wrapped
                    then lines[maxLines - 1 := lines ! (maxLines - 1) @ js ''...'']
                    else lines)
      in filter (\<lambda>line. line \<noteq> []) lines')"

section \<open>fetchers.ts\<close>

text \<open>
  The functions that reach the network return, beside their result, the list of the
  outbound calls they made (the variables handed to the retryer), in order.
\<close>

definition statsFetcher ::
  "'d externals \<Rightarrow> jsstring \<Rightarrow> (error + 'd response) \<times> variables list" where
  "statsFetcher ext repoFullname =
     (let parts = split repoFullname (js ''/'');
          vars = \<lparr>owner = elemAt parts 0, name = elemAt parts 1\<rparr>
      in (retryer ext vars, [vars]))"

text \<open>
  The classification of a response by \<open>fetchStats\<close>. An \<open>errors\<close> array is truthy even
  when it is empty, and reading \<open>type\<close> of its missing first entry throws.
\<close>

definition classify :: "'d externals \<Rightarrow> 'd response \<Rightarrow> error + 'd response" where
  "classify ext res =
     (case errors res of
        None \<Rightarrow> Inr res
      | Some [] \<Rightarrow> Inl (TypeError (undefinedReadMessage ext (js ''type'')))
      | Some (e # es) \<Rightarrow>
          if type e = Some (js ''NOT_FOUND'')
          then Inl (newCustomError
                 (Some (if message e \<noteq> None \<and> message e \<noteq> Some []
                        then the (message e) else js ''Could not fetch user.''))
                 USER_NOT_FOUND)
          else if message e \<noteq> None \<and> message e \<noteq> Some []
          then Inl (newCustomError (elemAt (wrapTextMultiline ext (the (message e)) 90 1) 0)
                 (statusText res))
          else Inl (newCustomError
                 (Some (js ''Something went wrong while trying to retrieve the stats data using the GraphQL API.''))
                 GRAPHQL_ERROR))"

definition fetchStats ::
  "'d externals \<Rightarrow> jsstring \<Rightarrow> (error + 'd response) \<times> variables list" where
  "fetchStats ext repo =
     (if repo = [] then (Inl (MissingParamError [js ''repo''] None), [])
      else
        let (res, calls) = statsFetcher ext repo
        in case res of
             Inl err \<Rightarrow> (Inl err, calls)
           | Inr r \<Rightarrow> (classify ext r, calls))"

section \<open>The handler\<close>

text \<open>\<open>res.setHeader(name, value)\<close>: the header is added, or its value replaced.\<close>

fun setHeader ::
  "(jsstring \<times> jsstring) list \<Rightarrow> jsstring \<Rightarrow> jsstring \<Rightarrow> (jsstring \<times> jsstring) list" where
  "setHeader [] k v = [(k, v)]"
| "setHeader ((k', v') # hs) k v =
     (if k' = k then (k, v) # hs else (k', v') # setHeader hs k v)"

text \<open>
  The cache duration of the success path: the clamped query parameter, replaced by
  \<open>parseInt(process.env.CACHE_SECONDS, 10)\<close> when the variable is set and that Number is
  truthy.
\<close>

definition cacheSecondsOf :: "'d externals \<Rightarrow> queryValue option \<Rightarrow> jsnum" where
  "cacheSecondsOf ext cs =
     (let cacheSeconds =
            clampValue
              (parseInt (if queryTruthy cs then queryToString (the cs)
                         else numToString ext FOUR_HOURS))
              FOUR_HOURS ONE_DAY
      in case CACHE_SECONDS ext of
           None \<Rightarrow> cacheSeconds
         | Some v \<Rightarrow>
             if v \<noteq> [] then
               (if truthyNum (parseInt v) then parseInt v else cacheSeconds)
             else cacheSeconds)"

definition cacheControl :: "'d externals \<Rightarrow> jsnum \<Rightarrow> jsstring" where
  "cacheControl ext cacheSeconds =
     js ''max-age='' @ numToString ext (half cacheSeconds)
     @ js '', s-maxage='' @ numToString ext cacheSeconds
     @ js '', stale-while-revalidate='' @ numToString ext ONE_DAY"

text \<open>
  The \<open>catch\<close> block of the handler on the headers set so far: \<open>Cache-Control\<close> is
  set first, then the arguments of \<open>renderError\<close> are read from the caught value. On a
  caught \<open>null\<close> or \<open>undefined\<close> the read of \<open>message\<close> throws the engine's TypeError
  out of the handler, after the header was set and before anything is sent.
\<close>

definition readThrows :: "'d externals \<Rightarrow> error \<Rightarrow> jsstring \<Rightarrow> error" where
  "readThrows ext err k =
     (if err = ThrownNull then TypeError (nullReadMessage ext k)
      else TypeError (undefinedReadMessage ext k))"

definition catchBlock ::
  "'d externals \<Rightarrow> (jsstring \<times> jsstring) list \<Rightarrow> error \<Rightarrow> 'd httpResponse" where
  "catchBlock ext hs err =
     (let hs' = setHeader hs (js ''Cache-Control'') (js ''no-cache, no-store, must-revalidate'')
      in case messageOf err of
           None \<Rightarrow> \<lparr>headers = hs', body = Threw (readThrows ext err (js ''message''))\<rparr>
         | Some m \<Rightarrow>
             (case secondaryMessageOf err of
                None \<Rightarrow>
                  \<lparr>headers = hs', body = Threw (readThrows ext err (js ''secondaryMessage''))\<rparr>
              | Some sec \<Rightarrow>
                  \<lparr>headers = hs',
                    body = Sent (renderError ext (toString ext m) (toString ext sec))\<rparr>))"

text \<open>
  The handler: the headers it set with \<open>setHeader\<close>, how it ended, and the outbound
  calls made. The \<open>try\<close> block holds \<open>fetchStats\<close> and, after the \<open>Cache-Control\<close> of
  the success path is set, \<open>res.json(stats)\<close>; what either of them throws is caught.
  Of the framework only the outcome of \<open>res.json\<close> is part of the model, not the headers
  it may set on its own.
\<close>

definition handler :: "'d externals \<Rightarrow> request \<Rightarrow> 'd httpResponse \<times> variables list" where
  "handler ext req =
     (let hs = setHeader [] (js ''Content-Type'') (js ''image/svg+xml'');
          (stats, calls) = fetchStats ext (parseString (query_repo req))
      in case stats of
           Inr s \<Rightarrow>
             (let hs' = setHeader hs (js ''Cache-Control'')
                          (cacheControl ext (cacheSecondsOf ext (query_cache_seconds req)))
              in case jsonThrows ext s of
                   None \<Rightarrow> (\<lparr>headers = hs', body = Json s\<rparr>, calls)
                 | Some err \<Rightarrow> (catchBlock ext hs' err, calls))
         | Inl err \<Rightarrow> (catchBlock ext hs err, calls))"

section \<open>Externals for the examples\<close>

text \<open>
  A wrapper for the examples: a text that fits the width is one line behind the package's
  indent of two spaces, and a longer one is broken at every space, one word per line.
  Around it an instance of the externals: a retryer that answers every request with the
  given outcome, a \<open>res.json\<close> that returns, no case folding into the class, V8's texts
  for inherited members and for the TypeErrors, and no \<open>CACHE_SECONDS\<close>.
\<close>

definition wordPerLine :: "jsstring \<Rightarrow> nat \<Rightarrow> jsstring" where
  "wordPerLine s width =
     (if length s \<le> width then js ''  '' @ s
      else js ''  '' @ concat (map (\<lambda>c. if c = 32 then [10, 32, 32] else [c]) s))"

definition answering :: "error + unit response \<Rightarrow> unit externals" where
  "answering outcome =
     \<lparr>wrap = wordPerLine,
      retryer = (\<lambda>vars. outcome),
      foldsIntoClass = (\<lambda>c. False),
      formatNumber = (\<lambda>q. []),
      inheritedToString =
        (\<lambda>k. if k = js ''__proto__'' then js ''[object Object]''
             else js ''function '' @ k @ js ''() { [native code] }''),
      undefinedReadMessage =
        (\<lambda>k. js ''Cannot read properties of undefined (reading '' @ [39] @ k @ [39] @ js '')''),
      nullReadMessage =
        (\<lambda>k. js ''Cannot read properties of null (reading '' @ [39] @ k @ [39] @ js '')''),
      jsonThrows = (\<lambda>s. None),
      CACHE_SECONDS = None\<rparr>"

definition okResponse :: "gqlError list option \<Rightarrow> unit response" where
  "okResponse es = \<lparr>errors = es, statusText = js ''OK'', rest = ()\<rparr>"

section \<open>clampValue\<close>

lemma leNum_refl_iff: "leNum a a \<longleftrightarrow> a \<noteq> NaN"
  by (cases a) simp_all

lemma mathMin_Fin: "mathMin (Fin x) (Fin b) = Fin (min x b)"
  by (simp add: mathMin_def min_def)

lemma mathMax_Fin: "mathMax (Fin a) (Fin x) = Fin (max a x)"
  by (simp add: mathMax_def max_def)

lemma leNum_mathMax_left: "a \<noteq> NaN \<Longrightarrow> b \<noteq> NaN \<Longrightarrow> leNum a (mathMax a b)"
  by (cases a; cases b) (simp_all add: mathMax_def)

lemma leNum_mathMax_bound:
  "leNum a c \<Longrightarrow> leNum b c \<Longrightarrow> leNum (mathMax a b) c"
  by (cases a; cases b; cases c) (simp_all add: mathMax_def)

lemma leNum_mathMin_right: "a \<noteq> NaN \<Longrightarrow> b \<noteq> NaN \<Longrightarrow> leNum (mathMin a b) b"
  by (cases a; cases b) (simp_all add: mathMin_def)

lemma mathMin_not_NaN: "a \<noteq> NaN \<Longrightarrow> b \<noteq> NaN \<Longrightarrow> mathMin a b \<noteq> NaN"
  by (simp add: mathMin_def)

lemma leNum_not_NaN: "leNum a b \<Longrightarrow> a \<noteq> NaN \<and> b \<noteq> NaN"
  by (cases a; cases b) simp_all

text \<open>
  C9. For \<open>min \<le> max\<close>, \<open>clampValue\<close> returns \<open>min\<close> when \<open>parseInt\<close> of the number is
  NaN and \<open>Math.max(min, Math.min(number, max))\<close> otherwise; in both cases the result
  lies in the closed interval from \<open>min\<close> to \<open>max\<close>, and on finite arguments it is the
  mathematical \<open>max min (min number max)\<close>.
\<close>

theorem clampValue_in_range:
  assumes "leNum mn mx"
  shows "clampValue n mn mx = (if parseIntIsNaN n then mn else mathMax mn (mathMin n mx))
       \<and> leNum mn (clampValue n mn mx) \<and> leNum (clampValue n mn mx) mx
       \<and> (\<forall>x a b. n = Fin x \<and> mn = Fin a \<and> mx = Fin b
             \<longrightarrow> clampValue n mn mx = Fin (max a (min x b)))"
proof -
  from assms have nn: "mn \<noteq> NaN" "mx \<noteq> NaN"
    using leNum_not_NaN by blast+
  show ?thesis
  proof (cases "parseIntIsNaN n")
    case True
    then have "clampValue n mn mx = mn" by (simp add: clampValue_def)
    moreover have "leNum mn mn" using nn by (simp add: leNum_refl_iff)
    moreover from True have "\<And>x. n \<noteq> Fin x" by auto
    ultimately show ?thesis using assms True by simp
  next
    case False
    then obtain x where n: "n = Fin x" by (cases n) simp_all
    have c: "clampValue n mn mx = mathMax mn (mathMin n mx)"
      using False by (simp add: clampValue_def)
    have m: "mathMin n mx \<noteq> NaN" using n nn by (simp add: mathMin_not_NaN)
    have "leNum mn (mathMax mn (mathMin n mx))"
      using nn m by (rule_tac leNum_mathMax_left)
    moreover have "leNum (mathMax mn (mathMin n mx)) mx"
      using assms n nn by (intro leNum_mathMax_bound leNum_mathMin_right) simp_all
    moreover have "\<forall>x a b. n = Fin x \<and> mn = Fin a \<and> mx = Fin b
             \<longrightarrow> clampValue n mn mx = Fin (max a (min x b))"
      using c by (auto simp: mathMin_Fin mathMax_Fin)
    ultimately show ?thesis using c False by simp
  qed
qed

theorem clampValue_in_range_witness:
  "leNum (Fin 14400) (Fin 86400)
   \<and> clampValue (Fin 10) (Fin 14400) (Fin 86400) = Fin 14400
   \<and> clampValue (Fin 100000) (Fin 14400) (Fin 86400) = Fin 86400
   \<and> clampValue (Fin 20000) (Fin 14400) (Fin 86400) = Fin 20000
   \<and> clampValue NaN (Fin 14400) (Fin 86400) = Fin 14400
   \<and> clampValue PosInf (Fin 14400) (Fin 86400) = Fin 14400"
proof -
  have h: "leNum (Fin 14400) (Fin 86400)" by simp
  show ?thesis
    using h clampValue_in_range [OF h, of "Fin 10"] clampValue_in_range [OF h, of "Fin 100000"]
      clampValue_in_range [OF h, of "Fin 20000"] clampValue_in_range [OF h, of NaN]
      clampValue_in_range [OF h, of PosInf]
    by (simp add: mathMin_def mathMax_def)
qed

section \<open>wrapTextMultiline\<close>

lemma last_filter_keep: "xs \<noteq> [] \<Longrightarrow> P (last xs) \<Longrightarrow> last (filter P xs) = last xs \<and> filter P xs \<noteq> []"
  by (induction xs) (auto split: if_splits)

lemma wrapTextMultiline_over:
  assumes "1 \<le> m" "m < length (wrappedLines ext t w)"
  shows "wrapTextMultiline ext t w m \<noteq> []
       \<and> last (wrapTextMultiline ext t w m)
           = trim (wrappedLines ext t w ! (m - 1)) @ js ''...''"
proof -
  define ls where "ls = take m (map trim (wrappedLines ext t w))"
  define ls' where "ls' = ls[m - 1 := ls ! (m - 1) @ js ''...'']"
  have len: "length ls = m" using assms by (simp add: ls_def)
  have ne: "ls' \<noteq> []" using len assms by (auto simp: ls'_def)
  have "last ls' = ls' ! (length ls' - 1)"
    using ne by (rule last_conv_nth)
  then have lst: "last ls' = ls ! (m - 1) @ js ''...''"
    using len assms by (simp add: ls'_def)
  have nth: "ls ! (m - 1) = trim (wrappedLines ext t w ! (m - 1))"
    using assms by (simp add: ls_def)
  have dots: "js ''...'' \<noteq> []" by (simp add: js_def)
  have "last ls' \<noteq> []" using lst dots by simp
  then have "last (filter (\<lambda>line. line \<noteq> []) ls') = last ls' \<and> filter (\<lambda>line. line \<noteq> []) ls' \<noteq> []"
    using ne by (intro last_filter_keep) simp_all
  moreover have "wrapTextMultiline ext t w m = filter (\<lambda>line. line \<noteq> []) ls'"
    using assms by (simp add: wrapTextMultiline_def Let_def ls_def ls'_def)
  ultimately show ?thesis using lst nth by simp
qed

lemma wrapTextMultiline_length: "length (wrapTextMultiline ext t w m) \<le> m"
  unfolding wrapTextMultiline_def Let_def
  by (rule order_trans [OF length_filter_le]) simp

lemma wrapTextMultiline_nonempty_lines: "l \<in> set (wrapTextMultiline ext t w m) \<Longrightarrow> l \<noteq> []"
  by (simp add: wrapTextMultiline_def Let_def)

text \<open>
  C8. For every text, every width and every \<open>maxLines \<ge> 1\<close>, \<open>wrapTextMultiline\<close>
  returns at most \<open>maxLines\<close> lines, none of them empty, and when more than \<open>maxLines\<close>
  lines were wrapped the last returned line ends with three dots.
\<close>

theorem wrapTextMultiline_lines:
  assumes "1 \<le> w" and "1 \<le> m"
  shows "length (wrapTextMultiline ext t w m) \<le> m
       \<and> (\<forall>l \<in> set (wrapTextMultiline ext t w m). l \<noteq> [])
       \<and> (m < length (wrappedLines ext t w) \<longrightarrow>
            wrapTextMultiline ext t w m \<noteq> []
            \<and> (\<exists>p. last (wrapTextMultiline ext t w m) = p @ js ''...''))"
proof (intro conjI ballI impI)
  show "length (wrapTextMultiline ext t w m) \<le> m"
    by (rule wrapTextMultiline_length)
next
  fix l assume "l \<in> set (wrapTextMultiline ext t w m)"
  then show "l \<noteq> []" by (rule wrapTextMultiline_nonempty_lines)
next
  assume "m < length (wrappedLines ext t w)"
  with assms(2) show "wrapTextMultiline ext t w m \<noteq> []"
    using wrapTextMultiline_over by blast
next
  assume "m < length (wrappedLines ext t w)"
  with assms(2) show "\<exists>p. last (wrapTextMultiline ext t w m) = p @ js ''...''"
    using wrapTextMultiline_over by blast
qed

theorem wrapTextMultiline_lines_witness:
  "(1::nat) \<le> 10 \<and> (1::nat) \<le> 2
   \<and> 2 < length (wrappedLines (answering (Inl (TypeError []))) (js ''hello world again'') 10)
   \<and> wrapTextMultiline (answering (Inl (TypeError []))) (js ''hello world again'') 10 2
       = [js ''hello'', js ''world...'']
   \<and> length (wrapTextMultiline (answering (Inl (TypeError []))) (js ''hello world again'') 10 2) \<le> 2
   \<and> last (wrapTextMultiline (answering (Inl (TypeError []))) (js ''hello world again'') 10 2)
       = js ''world'' @ js ''...''"
proof -
  have w: "wrappedLines (answering (Inl (TypeError []))) (js ''hello world again'') 10
             = [js ''  hello'', js ''  world'', js ''  again'']"
    by (simp add: wrappedLines_def Let_def encodeHTML_def answering_def wordPerLine_def
        inClass_def js_def fullWidthComma_def startsWith_def split_def)
  have r: "wrapTextMultiline (answering (Inl (TypeError []))) (js ''hello world again'') 10 2
             = [js ''hello'', js ''world...'']"
    unfolding wrapTextMultiline_def w
    by (simp add: Let_def trim_def isWhiteSpace_def js_def)
  show ?thesis
    using wrapTextMultiline_lines [of 10 2 "answering (Inl (TypeError []))" "js ''hello world again''"]
    unfolding r w
    by (simp add: js_def)
qed

section \<open>The request builder\<close>

lemma split_from_single:
  "split_from [c] acc s =
     (rev acc @ takeWhile (\<lambda>x. x \<noteq> c) s)
       # (if c \<in> set s then split_from [c] [] (tl (dropWhile (\<lambda>x. x \<noteq> c) s)) else [])"
  by (induction s arbitrary: acc) (auto simp: startsWith_def)

lemma split_single_first:
  "elemAt (split s [c]) 0 = Some (takeWhile (\<lambda>x. x \<noteq> c) s)"
  by (subst split_def, simp, subst split_from_single) (simp add: elemAt_def)

lemma split_single_second:
  "elemAt (split s [c]) 1 =
     (if c \<in> set s
      then Some (takeWhile (\<lambda>x. x \<noteq> c) (tl (dropWhile (\<lambda>x. x \<noteq> c) s)))
      else None)"
proof (cases "c \<in> set s")
  case True
  have "split s [c] = takeWhile (\<lambda>x. x \<noteq> c) s # split_from [c] [] (tl (dropWhile (\<lambda>x. x \<noteq> c) s))"
    using True by (subst split_def, simp, subst split_from_single) simp
  also have "split_from [c] [] (tl (dropWhile (\<lambda>x. x \<noteq> c) s))
      = takeWhile (\<lambda>x. x \<noteq> c) (tl (dropWhile (\<lambda>x. x \<noteq> c) s))
        # (if c \<in> set (tl (dropWhile (\<lambda>x. x \<noteq> c) s))
           then split_from [c] [] (tl (dropWhile (\<lambda>x. x \<noteq> c) (tl (dropWhile (\<lambda>x. x \<noteq> c) s))))
           else [])"
    by (subst split_from_single) simp
  finally show ?thesis using True by (simp add: elemAt_def)
next
  case False
  have "split s [c] = [takeWhile (\<lambda>x. x \<noteq> c) s]"
    using False by (subst split_def, simp, subst split_from_single) simp
  then show ?thesis using False by (simp add: elemAt_def)
qed

lemma js_slash: "js ''/'' = [47]"
  by (simp add: js_def)

text \<open>
  C3, as the code has it. The owner is the text before the first \<open>/\<close> (the whole
  identifier when there is none). The name is the text between the first and the second
  \<open>/\<close>, up to the end when there is no second one, and \<open>undefined\<close> when the identifier
  has no \<open>/\<close>: \<open>split\<close> cuts at every separator and the destructuring keeps the first
  two pieces. For an identifier \<open>o/n\<close> whose parts are non-empty and free of \<open>/\<close>, the
  variables are \<open>o\<close> and \<open>n\<close>.
\<close>

theorem statsFetcher_variables:
  "snd (statsFetcher ext s) =
     [\<lparr>owner = Some (takeWhile (\<lambda>c. c \<noteq> 47) s),
       name = (if 47 \<in> set s
               then Some (takeWhile (\<lambda>c. c \<noteq> 47) (tl (dropWhile (\<lambda>c. c \<noteq> 47) s)))
               else None)\<rparr>]
   \<and> fst (statsFetcher ext s) = retryer ext (hd (snd (statsFetcher ext s)))
   \<and> (\<forall>ow n. s = ow @ js ''/'' @ n \<and> ow \<noteq> [] \<and> n \<noteq> [] \<and> 47 \<notin> set ow \<and> 47 \<notin> set n
         \<longrightarrow> snd (statsFetcher ext s) = [\<lparr>owner = Some ow, name = Some n\<rparr>])"
proof -
  have v: "snd (statsFetcher ext s) =
     [\<lparr>owner = Some (takeWhile (\<lambda>c. c \<noteq> 47) s),
       name = (if 47 \<in> set s
               then Some (takeWhile (\<lambda>c. c \<noteq> 47) (tl (dropWhile (\<lambda>c. c \<noteq> 47) s)))
               else None)\<rparr>]"
    by (simp add: statsFetcher_def Let_def js_slash split_single_first split_single_second
        del: One_nat_def)
  have r: "fst (statsFetcher ext s) = retryer ext (hd (snd (statsFetcher ext s)))"
    by (simp add: statsFetcher_def Let_def)
  have "snd (statsFetcher ext s) = [\<lparr>owner = Some ow, name = Some n\<rparr>]"
    if "s = ow @ js ''/'' @ n" "47 \<notin> set ow" "47 \<notin> set n" for ow n
  proof -
    have "takeWhile (\<lambda>c. c \<noteq> 47) s = ow"
      using that by (auto simp: js_slash takeWhile_tail)
    moreover have "dropWhile (\<lambda>c. c \<noteq> 47) s = 47 # n"
      using that by (auto simp: js_slash dropWhile_append3)
    moreover have "takeWhile (\<lambda>c. c \<noteq> 47) n = n"
      using that by (auto simp: takeWhile_eq_all_conv)
    moreover have "47 \<in> set s" using that by (simp add: js_slash)
    ultimately show ?thesis using v by simp
  qed
  then show ?thesis using v r by blast
qed

theorem statsFetcher_variables_witness:
  "js ''moonrailgun/github-repository-card'' = js ''moonrailgun'' @ js ''/'' @ js ''github-repository-card''
   \<and> js ''moonrailgun'' \<noteq> [] \<and> js ''github-repository-card'' \<noteq> []
   \<and> 47 \<notin> set (js ''moonrailgun'') \<and> 47 \<notin> set (js ''github-repository-card'')
   \<and> snd (statsFetcher (answering (Inr (okResponse None))) (js ''moonrailgun/github-repository-card''))
       = [\<lparr>owner = Some (js ''moonrailgun''), name = Some (js ''github-repository-card'')\<rparr>]
   \<and> snd (statsFetcher (answering (Inr (okResponse None))) (js ''nobody''))
       = [\<lparr>owner = Some (js ''nobody''), name = None\<rparr>]"
  using statsFetcher_variables [of "answering (Inr (okResponse None))" "js ''moonrailgun/github-repository-card''"]
    statsFetcher_variables [of "answering (Inr (okResponse None))" "js ''nobody''"]
  by (simp add: js_def)

text \<open>
  The identifier \<open>a/b/c\<close>: the name sent is \<open>b\<close>, not the remainder \<open>b/c\<close> after the
  first separator.
\<close>

theorem statsFetcher_remainder_counterexample:
  "tl (dropWhile (\<lambda>c. c \<noteq> 47) (js ''a/b/c'')) = js ''b/c''
   \<and> snd (statsFetcher (answering (Inr (okResponse None))) (js ''a/b/c''))
       = [\<lparr>owner = Some (js ''a''), name = Some (js ''b'')\<rparr>]
   \<and> js ''b'' \<noteq> js ''b/c''"
  by (simp add: statsFetcher_def Let_def split_def startsWith_def elemAt_def js_def)

section \<open>fetchStats and the classification of responses\<close>

lemma retryer_answering: "retryer (answering outcome) vars = outcome"
  by (simp add: answering_def)

lemma statsFetcher_answering: "fst (statsFetcher (answering outcome) s) = outcome"
  by (simp add: statsFetcher_def Let_def retryer_answering)

lemma fetchStats_response:
  assumes "repo \<noteq> []" and "fst (statsFetcher ext repo) = Inr res"
  shows "fetchStats ext repo = (classify ext res, snd (statsFetcher ext repo))"
  using assms by (cases "statsFetcher ext repo") (simp add: fetchStats_def)

lemma fetchStats_thrown:
  assumes "repo \<noteq> []" and "fst (statsFetcher ext repo) = Inl err"
  shows "fetchStats ext repo = (Inl err, snd (statsFetcher ext repo))"
  using assms by (cases "statsFetcher ext repo") (simp add: fetchStats_def)

lemma newCustomError_USER_NOT_FOUND:
  "newCustomError (Some m) USER_NOT_FOUND =
     CustomError m USER_NOT_FOUND
       (Str (js ''Make sure the provided username is not an organization''))"
  by (simp add: newCustomError_def getProperty_def SECONDARY_ERROR_MESSAGES_def
      USER_NOT_FOUND_def js_def)

lemma newCustomError_GRAPHQL_ERROR:
  "newCustomError (Some m) GRAPHQL_ERROR =
     CustomError m GRAPHQL_ERROR (Str (js ''Please try again later''))"
  by (simp add: newCustomError_def getProperty_def SECONDARY_ERROR_MESSAGES_def
      GRAPHQL_ERROR_def js_def)

lemma newCustomError_other_type:
  assumes "ty \<notin> fst ` set SECONDARY_ERROR_MESSAGES" and "ty \<notin> set objectPrototypeNames"
  shows "newCustomError msg ty = CustomError (case msg of None \<Rightarrow> [] | Some m \<Rightarrow> m) ty (Str ty)"
proof -
  have "map_of SECONDARY_ERROR_MESSAGES ty = None"
    using assms(1) by (simp add: map_of_eq_None_iff)
  then have "getProperty SECONDARY_ERROR_MESSAGES ty = Undefined"
    using assms(2) by (simp add: getProperty_def)
  then show ?thesis by (simp add: newCustomError_def)
qed

lemma OK_is_other_type:
  "js ''OK'' \<notin> fst ` set SECONDARY_ERROR_MESSAGES \<and> js ''OK'' \<notin> set objectPrototypeNames"
  by (simp add: SECONDARY_ERROR_MESSAGES_def objectPrototypeNames_def js_def)

lemma classify_absent: "errors res = None \<Longrightarrow> classify ext res = Inr res"
  by (simp add: classify_def)

lemma classify_not_found:
  assumes "errors res = Some (e # es)" and "type e = Some (js ''NOT_FOUND'')"
  shows "classify ext res =
     Inl (CustomError
            (case message e of
               None \<Rightarrow> js ''Could not fetch user.''
             | Some m \<Rightarrow> if m = [] then js ''Could not fetch user.'' else m)
            USER_NOT_FOUND
            (Str (js ''Make sure the provided username is not an organization'')))"
  using assms by (auto simp: classify_def newCustomError_USER_NOT_FOUND split: option.splits)

lemma classify_message:
  assumes "errors res = Some (e # es)" and "type e \<noteq> Some (js ''NOT_FOUND'')"
    and "message e = Some m" and "m \<noteq> []"
  shows "classify ext res =
     Inl (newCustomError (elemAt (wrapTextMultiline ext m 90 1) 0) (statusText res))"
  using assms by (simp add: classify_def)

lemma classify_generic:
  assumes "errors res = Some (e # es)" and "type e \<noteq> Some (js ''NOT_FOUND'')"
    and "message e = None \<or> message e = Some []"
  shows "classify ext res =
     Inl (CustomError
            (js ''Something went wrong while trying to retrieve the stats data using the GraphQL API.'')
            GRAPHQL_ERROR (Str (js ''Please try again later'')))"
  using assms by (auto simp: classify_def newCustomError_GRAPHQL_ERROR)

text \<open>Evaluation of the examples.\<close>

lemma wrap_bad_credentials:
  "wrapTextMultiline (answering outcome) (js ''Bad credentials'') 90 1 = [js ''Bad credentials'']"
  by (simp add: wrapTextMultiline_def wrappedLines_def Let_def encodeHTML_def answering_def
      wordPerLine_def inClass_def fullWidthComma_def startsWith_def split_def trim_def
      isWhiteSpace_def js_def)

text \<open>
  C1, as the code has it. When \<open>errors[0].type\<close> is \<open>NOT_FOUND\<close>, \<open>fetchStats\<close> fails
  with a \<open>CustomError\<close> of type \<open>USER_NOT_FOUND\<close> whose message is \<open>errors[0].message\<close>
  when that is present and not empty, and otherwise the default
  \<open>Could not fetch user.\<close>
\<close>

theorem fetchStats_not_found:
  assumes "repo \<noteq> []" and "fst (statsFetcher ext repo) = Inr res"
    and "errors res = Some (e # es)" and "type e = Some (js ''NOT_FOUND'')"
  shows "fst (fetchStats ext repo) =
     Inl (CustomError
            (case message e of
               None \<Rightarrow> js ''Could not fetch user.''
             | Some m \<Rightarrow> if m = [] then js ''Could not fetch user.'' else m)
            USER_NOT_FOUND
            (Str (js ''Make sure the provided username is not an organization'')))"
  using assms by (simp add: fetchStats_response classify_not_found)

theorem fetchStats_not_found_witness:
  "js ''a/b'' \<noteq> []
   \<and> fst (statsFetcher
        (answering (Inr (okResponse (Some
           [\<lparr>type = Some (js ''NOT_FOUND''), message = Some (js ''Could not resolve'')\<rparr>]))))
        (js ''a/b''))
       = Inr (okResponse (Some
           [\<lparr>type = Some (js ''NOT_FOUND''), message = Some (js ''Could not resolve'')\<rparr>]))
   \<and> fst (fetchStats
        (answering (Inr (okResponse (Some
           [\<lparr>type = Some (js ''NOT_FOUND''), message = Some (js ''Could not resolve'')\<rparr>]))))
        (js ''a/b''))
       = Inl (CustomError (js ''Could not resolve'') USER_NOT_FOUND
               (Str (js ''Make sure the provided username is not an organization'')))"
  using fetchStats_not_found
    [of "js ''a/b''"
        "answering (Inr (okResponse (Some
           [\<lparr>type = Some (js ''NOT_FOUND''), message = Some (js ''Could not resolve'')\<rparr>])))"
        "okResponse (Some
           [\<lparr>type = Some (js ''NOT_FOUND''), message = Some (js ''Could not resolve'')\<rparr>])"
        "\<lparr>type = Some (js ''NOT_FOUND''), message = Some (js ''Could not resolve'')\<rparr>" "[]"]
  by (simp add: statsFetcher_answering okResponse_def) (simp add: js_def)

text \<open>
  A \<open>NOT_FOUND\<close> entry without a message: the default is \<open>Could not fetch user.\<close>, not
  \<open>Could not fetch repository.\<close>
\<close>

theorem fetchStats_not_found_default_counterexample:
  "fst (fetchStats
     (answering (Inr (okResponse (Some [\<lparr>type = Some (js ''NOT_FOUND''), message = None\<rparr>]))))
     (js ''a/b''))
     = Inl (CustomError (js ''Could not fetch user.'') USER_NOT_FOUND
             (Str (js ''Make sure the provided username is not an organization'')))
   \<and> js ''Could not fetch user.'' \<noteq> js ''Could not fetch repository.''"
proof -
  have "js ''a/b'' \<noteq> []" by (simp add: js_def)
  then have "fst (fetchStats
     (answering (Inr (okResponse (Some [\<lparr>type = Some (js ''NOT_FOUND''), message = None\<rparr>]))))
     (js ''a/b''))
     = classify (answering (Inr (okResponse (Some [\<lparr>type = Some (js ''NOT_FOUND''), message = None\<rparr>]))))
         (okResponse (Some [\<lparr>type = Some (js ''NOT_FOUND''), message = None\<rparr>]))"
    by (simp add: fetchStats_response statsFetcher_answering)
  moreover have "js ''Could not fetch user.'' \<noteq> js ''Could not fetch repository.''"
    by (simp add: js_def)
  ultimately show ?thesis
    by (simp add: classify_not_found [where es = "[]"] okResponse_def)
qed


text \<open>
  C2, as the code has it. When \<open>errors[0].type\<close> is not \<open>NOT_FOUND\<close> and
  \<open>errors[0].message\<close> is present and not empty, \<open>fetchStats\<close> fails with a
  \<open>CustomError\<close> whose type is the \<open>statusText\<close> of the response, whose message is
  the one line \<open>wrapTextMultiline(message, 90, 1)\<close> returns (the empty message when it
  returns none) and whose secondary message is the one the constructor finds for that
  type. When the message is absent or empty, \<open>fetchStats\<close> fails with a
  \<open>CustomError\<close> of type \<open>GRAPHQL_ERROR\<close> that carries the generic message.
\<close>

theorem fetchStats_graphql_error:
  assumes "repo \<noteq> []" and "fst (statsFetcher ext repo) = Inr res"
    and "errors res = Some (e # es)" and "type e \<noteq> Some (js ''NOT_FOUND'')"
  shows "(\<forall>m. message e = Some m \<and> m \<noteq> [] \<longrightarrow>
            length (wrapTextMultiline ext m 90 1) \<le> 1
            \<and> fst (fetchStats ext repo) =
                  Inl (CustomError
                         (case wrapTextMultiline ext m 90 1 of [] \<Rightarrow> [] | l # ls \<Rightarrow> l)
                         (statusText res)
                         (if truthy (getProperty SECONDARY_ERROR_MESSAGES (statusText res))
                          then getProperty SECONDARY_ERROR_MESSAGES (statusText res)
                          else Str (statusText res))))
       \<and> (message e = None \<or> message e = Some [] \<longrightarrow>
            fst (fetchStats ext repo) =
              Inl (CustomError
                     (js ''Something went wrong while trying to retrieve the stats data using the GraphQL API.'')
                     GRAPHQL_ERROR (Str (js ''Please try again later''))))"
proof (intro conjI allI impI)
  fix m assume "message e = Some m \<and> m \<noteq> []"
  show "length (wrapTextMultiline ext m 90 1) \<le> 1"
    by (rule wrapTextMultiline_length)
next
  fix m assume m: "message e = Some m \<and> m \<noteq> []"
  have "fst (fetchStats ext repo)
          = Inl (newCustomError (elemAt (wrapTextMultiline ext m 90 1) 0) (statusText res))"
    using assms m by (simp add: fetchStats_response classify_message)
  moreover have "(case elemAt (wrapTextMultiline ext m 90 1) 0 of None \<Rightarrow> [] | Some l \<Rightarrow> l)
          = (case wrapTextMultiline ext m 90 1 of [] \<Rightarrow> [] | l # ls \<Rightarrow> l)"
    by (cases "wrapTextMultiline ext m 90 1") (simp_all add: elemAt_def)
  ultimately show "fst (fetchStats ext repo) =
      Inl (CustomError (case wrapTextMultiline ext m 90 1 of [] \<Rightarrow> [] | l # ls \<Rightarrow> l)
             (statusText res)
             (if truthy (getProperty SECONDARY_ERROR_MESSAGES (statusText res))
              then getProperty SECONDARY_ERROR_MESSAGES (statusText res)
              else Str (statusText res)))"
    by (simp add: newCustomError_def Let_def)
next
  assume "message e = None \<or> message e = Some []"
  then show "fst (fetchStats ext repo) =
      Inl (CustomError
             (js ''Something went wrong while trying to retrieve the stats data using the GraphQL API.'')
             GRAPHQL_ERROR (Str (js ''Please try again later'')))"
    using assms by (simp add: fetchStats_response classify_generic)
qed

lemma fetchStats_bad_credentials:
  "fst (fetchStats
     (answering (Inr (okResponse (Some [\<lparr>type = None, message = Some (js ''Bad credentials'')\<rparr>]))))
     (js ''a/b''))
     = Inl (CustomError (js ''Bad credentials'') (js ''OK'') (Str (js ''OK'')))"
proof -
  have ne: "js ''a/b'' \<noteq> []" "js ''Bad credentials'' \<noteq> []" by (simp_all add: js_def)
  have "fst (fetchStats
     (answering (Inr (okResponse (Some [\<lparr>type = None, message = Some (js ''Bad credentials'')\<rparr>]))))
     (js ''a/b''))
     = classify (answering (Inr (okResponse (Some [\<lparr>type = None, message = Some (js ''Bad credentials'')\<rparr>]))))
         (okResponse (Some [\<lparr>type = None, message = Some (js ''Bad credentials'')\<rparr>]))"
    using ne by (simp add: fetchStats_response statsFetcher_answering)
  also have "\<dots> = Inl (newCustomError
      (elemAt (wrapTextMultiline
         (answering (Inr (okResponse (Some [\<lparr>type = None, message = Some (js ''Bad credentials'')\<rparr>]))))
         (js ''Bad credentials'') 90 1) 0) (js ''OK''))"
    using ne
    by (subst classify_message
          [where es = "[]" and m = "js ''Bad credentials''"
             and e = "\<lparr>type = None, message = Some (js ''Bad credentials'')\<rparr>"])
      (simp_all add: okResponse_def)
  also have "\<dots> = Inl (newCustomError (elemAt [js ''Bad credentials''] 0) (js ''OK''))"
    by (simp only: wrap_bad_credentials)
  also have "\<dots> = Inl (CustomError (js ''Bad credentials'') (js ''OK'') (Str (js ''OK'')))"
    using OK_is_other_type by (simp add: newCustomError_other_type elemAt_def)
  finally show ?thesis .
qed

theorem fetchStats_graphql_error_witness:
  "js ''a/b'' \<noteq> []
   \<and> fst (statsFetcher
        (answering (Inr (okResponse (Some [\<lparr>type = None, message = None\<rparr>]))))
        (js ''a/b''))
       = Inr (okResponse (Some [\<lparr>type = None, message = None\<rparr>]))
   \<and> type \<lparr>type = None, message = None\<rparr> \<noteq> Some (js ''NOT_FOUND'')
   \<and> fst (fetchStats
        (answering (Inr (okResponse (Some [\<lparr>type = None, message = None\<rparr>]))))
        (js ''a/b''))
       = Inl (CustomError
               (js ''Something went wrong while trying to retrieve the stats data using the GraphQL API.'')
               GRAPHQL_ERROR (Str (js ''Please try again later'')))
   \<and> js ''Bad credentials'' \<noteq> []
   \<and> length (wrapTextMultiline
        (answering (Inr (okResponse (Some [\<lparr>type = None, message = Some (js ''Bad credentials'')\<rparr>]))))
        (js ''Bad credentials'') 90 1) \<le> 1
   \<and> fst (fetchStats
        (answering (Inr (okResponse (Some [\<lparr>type = None, message = Some (js ''Bad credentials'')\<rparr>]))))
        (js ''a/b''))
       = Inl (CustomError (js ''Bad credentials'') (js ''OK'') (Str (js ''OK'')))"
proof -
  have ne: "js ''a/b'' \<noteq> []" "js ''Bad credentials'' \<noteq> []" by (simp_all add: js_def)
  show ?thesis
    using ne fetchStats_bad_credentials
      fetchStats_graphql_error
        [of "js ''a/b''"
            "answering (Inr (okResponse (Some [\<lparr>type = None, message = None\<rparr>])))"
            "okResponse (Some [\<lparr>type = None, message = None\<rparr>])"
            "\<lparr>type = None, message = None\<rparr>" "[]"]
      fetchStats_graphql_error
        [of "js ''a/b''"
            "answering (Inr (okResponse (Some [\<lparr>type = None, message = Some (js ''Bad credentials'')\<rparr>])))"
            "okResponse (Some [\<lparr>type = None, message = Some (js ''Bad credentials'')\<rparr>])"
            "\<lparr>type = None, message = Some (js ''Bad credentials'')\<rparr>" "[]"]
    by (simp add: statsFetcher_answering okResponse_def)
qed

text \<open>
  An entry with a message and no type, in a response whose \<open>statusText\<close> is \<open>OK\<close>: the
  error's type is \<open>OK\<close>, not \<open>GRAPHQL_ERROR\<close>.
\<close>

theorem fetchStats_graphql_error_type_counterexample:
  "fst (fetchStats
     (answering (Inr (okResponse (Some [\<lparr>type = None, message = Some (js ''Bad credentials'')\<rparr>]))))
     (js ''a/b''))
     = Inl (CustomError (js ''Bad credentials'') (js ''OK'') (Str (js ''OK'')))
   \<and> js ''OK'' \<noteq> GRAPHQL_ERROR"
  using fetchStats_bad_credentials by (simp add: GRAPHQL_ERROR_def js_def)


text \<open>
  A response without an \<open>errors\<close> field passes through \<open>fetchStats\<close> unchanged.
\<close>

lemma fetchStats_no_errors:
  assumes "repo \<noteq> []" and "fst (statsFetcher ext repo) = Inr res" and "errors res = None"
  shows "fst (fetchStats ext repo) = Inr res"
  using assms by (simp add: fetchStats_response classify_absent)

text \<open>
  C6 on a response whose \<open>errors\<close> array is empty: the array is truthy, \<open>errors[0]\<close> is
  \<open>undefined\<close>, and \<open>fetchStats\<close> fails with the engine's TypeError instead of returning
  the response.
\<close>

theorem fetchStats_empty_errors_throws:
  "fst (fetchStats (answering (Inr (okResponse (Some [])))) (js ''a/b''))
     = Inl (TypeError
         (js ''Cannot read properties of undefined (reading '' @ [39] @ js ''type'' @ [39] @ js '')''))
   \<and> fst (fetchStats (answering (Inr (okResponse (Some [])))) (js ''a/b''))
     \<noteq> Inr (okResponse (Some []))"
proof -
  have "js ''a/b'' \<noteq> []" by (simp add: js_def)
  then have "fst (fetchStats (answering (Inr (okResponse (Some [])))) (js ''a/b''))
     = classify (answering (Inr (okResponse (Some [])))) (okResponse (Some []))"
    by (simp add: fetchStats_response statsFetcher_answering)
  then show ?thesis
    by (simp add: classify_def okResponse_def answering_def)
qed

text \<open>
  C10 on a type that names a member of \<open>Object.prototype\<close>: the lookup in
  \<open>SECONDARY_ERROR_MESSAGES\<close> finds the inherited function, which is truthy, so the
  secondary message is that function and not the type string. A response whose
  \<open>statusText\<close> is \<open>toString\<close> reaches this through the message branch of \<open>fetchStats\<close>.
\<close>

theorem newCustomError_inherited_type:
  "js ''toString'' \<notin> fst ` set SECONDARY_ERROR_MESSAGES
   \<and> newCustomError (Some (js ''Bad credentials'')) (js ''toString'')
       = CustomError (js ''Bad credentials'') (js ''toString'') (Inherited (js ''toString''))
   \<and> Inherited (js ''toString'') \<noteq> Str (js ''toString'')
   \<and> fst (fetchStats
        (answering (Inr \<lparr>errors = Some [\<lparr>type = None, message = Some (js ''Bad credentials'')\<rparr>],
                         statusText = js ''toString'', rest = ()\<rparr>))
        (js ''a/b''))
       = Inl (CustomError (js ''Bad credentials'') (js ''toString'') (Inherited (js ''toString'')))"
proof -
  let ?res = "\<lparr>errors = Some [\<lparr>type = None, message = Some (js ''Bad credentials'')\<rparr>],
               statusText = js ''toString'', rest = ()\<rparr>"
  have ne: "js ''a/b'' \<noteq> []" "js ''Bad credentials'' \<noteq> []" by (simp_all add: js_def)
  have own: "js ''toString'' \<notin> fst ` set SECONDARY_ERROR_MESSAGES"
    by (simp add: SECONDARY_ERROR_MESSAGES_def js_def)
  then have "map_of SECONDARY_ERROR_MESSAGES (js ''toString'') = None"
    by (simp add: map_of_eq_None_iff)
  moreover have "js ''toString'' \<in> set objectPrototypeNames"
    by (simp add: objectPrototypeNames_def)
  ultimately have n: "newCustomError (Some (js ''Bad credentials'')) (js ''toString'')
       = CustomError (js ''Bad credentials'') (js ''toString'') (Inherited (js ''toString''))"
    by (simp add: newCustomError_def getProperty_def)
  have "fst (fetchStats (answering (Inr ?res)) (js ''a/b'')) = classify (answering (Inr ?res)) ?res"
    using ne by (simp add: fetchStats_response statsFetcher_answering)
  also have "\<dots> = Inl (newCustomError
      (elemAt (wrapTextMultiline (answering (Inr ?res)) (js ''Bad credentials'') 90 1) 0)
      (js ''toString''))"
    using ne
    by (subst classify_message
          [where es = "[]" and m = "js ''Bad credentials''"
             and e = "\<lparr>type = None, message = Some (js ''Bad credentials'')\<rparr>"])
      simp_all
  also have "\<dots> = Inl (newCustomError (elemAt [js ''Bad credentials''] 0) (js ''toString''))"
    by (simp only: wrap_bad_credentials)
  also have "\<dots> = Inl (CustomError (js ''Bad credentials'') (js ''toString'') (Inherited (js ''toString'')))"
    using n by (simp add: elemAt_def)
  finally show ?thesis using own n by simp
qed

section \<open>The handler\<close>

lemma numToString_int:
  assumes "\<bar>k\<bar> \<le> 2 ^ 53"
  shows "numToString ext (Fin (of_int k)) = (if k < 0 then js ''-'' else []) @ decimal (nat \<bar>k\<bar>)"
  using assms by (simp add: numToString_def Let_def)

lemma quotient_of_odd_half:
  assumes "odd k"
  shows "quotient_of (of_int k / 2) = (k, 2)"
proof -
  have "(of_int k / 2 :: rat) = Fract k 2"
    by (simp add: Fract_of_int_quotient)
  moreover have "coprime k 2" using assms by simp
  ultimately show ?thesis by (simp add: quotient_of_Fract)
qed

lemma numToString_half_odd:
  assumes "odd k" and "\<bar>k\<bar> \<le> 2 ^ 53"
  shows "numToString ext (Fin (of_int k / 2))
           = (if k < 0 then js ''-'' else []) @ decimal (nat \<bar>k\<bar> div 2) @ js ''.5''"
  using assms by (simp add: numToString_def Let_def quotient_of_odd_half)

lemma half_even:
  assumes "even k"
  shows "half (Fin (of_int k)) = Fin (of_int (k div 2))"
  using assms by (auto elim!: evenE)

lemma toNumber_cases:
  "toNumber neg m = PosInf \<or> toNumber neg m = NegInf \<or> (\<exists>k. toNumber neg m = Fin (of_int k))"
proof (cases "roundNat m")
  case None
  then show ?thesis by (simp add: toNumber_def)
next
  case (Some v)
  show ?thesis
  proof (cases neg)
    case True
    then have "toNumber neg m = Fin (of_int (- int v))"
      using Some by (simp add: toNumber_def)
    then show ?thesis by blast
  next
    case False
    then have "toNumber neg m = Fin (of_int (int v))"
      using Some by (simp add: toNumber_def)
    then show ?thesis by blast
  qed
qed

lemma parseInt_cases:
  "parseInt s = NaN \<or> parseInt s = PosInf \<or> parseInt s = NegInf \<or> (\<exists>k. parseInt s = Fin (of_int k))"
  unfolding parseInt_def Let_def using toNumber_cases by presburger

lemma clampValue_parsed:
  "\<exists>k. 14400 \<le> k \<and> k \<le> 86400 \<and> clampValue (parseInt s) FOUR_HOURS ONE_DAY = Fin (of_int k)"
proof -
  consider "parseIntIsNaN (parseInt s)" | k where "parseInt s = Fin (of_int k)"
    using parseInt_cases [of s] by auto
  then show ?thesis
  proof cases
    case 1
    then have "clampValue (parseInt s) FOUR_HOURS ONE_DAY = Fin (of_int 14400)"
      by (simp add: clampValue_def FOUR_HOURS_def)
    then show ?thesis by (intro exI [of _ 14400]) simp
  next
    case 2
    then have "clampValue (parseInt s) FOUR_HOURS ONE_DAY
                 = Fin (of_int (max 14400 (min k 86400)))"
      by (simp add: clampValue_def FOUR_HOURS_def ONE_DAY_def mathMin_Fin mathMax_Fin
          max_def min_def)
    then show ?thesis by (intro exI [of _ "max 14400 (min k 86400)"]) simp
  qed
qed

lemma parseInt_14400: "parseInt (js ''14400'') = Fin 14400"
  by (simp add: parseInt_def Let_def isWhiteSpace_def isDigit_def digitsValue_def toNumber_def roundNat_def js_def)

lemma numToString_FOUR_HOURS: "numToString ext FOUR_HOURS = js ''14400''"
  using numToString_int [of 14400 ext] by (simp add: FOUR_HOURS_def decimal.simps js_def)

lemma numToString_ONE_DAY: "numToString ext ONE_DAY = js ''86400''"
  using numToString_int [of 86400 ext] by (simp add: ONE_DAY_def decimal.simps js_def)

lemma numToString_ERROR_CARD_LENGTH: "numToString ext ERROR_CARD_LENGTH = js ''576.5''"
  using numToString_half_odd [of 1153 ext] by (simp add: ERROR_CARD_LENGTH_def decimal.simps js_def)

lemma numToString_ERROR_CARD_LENGTH_minus_1:
  "numToString ext (minusNum ERROR_CARD_LENGTH 1) = js ''575.5''"
  using numToString_half_odd [of 1151 ext] by (simp add: ERROR_CARD_LENGTH_def decimal.simps js_def)


text \<open>The head of the error card is a fixed text: the two widths print the same everywhere.\<close>

lemma errorCardHead_text:
  \<open>errorCardHead ext =
     js ''\<newline>    <svg width="576.5" height="120" viewBox="0 0 576.5 120" fill="none" xmlns="http://www.w3.org/2000/svg">\<newline>''
     @ js ''    <style>\<newline>''
     @ js ''    .text { font: 600 16px 'Segoe UI', Ubuntu, Sans-Serif; fill: #2F80ED }\<newline>''
     @ js ''    .small { font: 600 12px 'Segoe UI', Ubuntu, Sans-Serif; fill: #252525 }\<newline>''
     @ js ''    .gray { fill: #858585 }\<newline>''
     @ js ''    </style>\<newline>''
     @ js ''    <rect x="0.5" y="0.5" width="575.5" height="99%" rx="4.5" fill="#FFFEFE" stroke="#E4E2E2"/>\<newline>''
     @ js ''    <text x="25" y="45" class="text">Something went wrong! file an issue at moonrailgun/github-repository-card</text>\<newline>''
     @ js ''    <text data-testid="message" x="25" y="55" class="text small">\<newline>''
     @ js ''      <tspan x="25" dy="18">''\<close>
  by (simp add: errorCardHead_def numToString_ERROR_CARD_LENGTH
      numToString_ERROR_CARD_LENGTH_minus_1 js_def)

lemma numToString_clamped:
  assumes "14400 \<le> k" and "k \<le> 86400"
  shows "numToString ext (Fin (of_int k)) = decimal (nat k)"
    and "numToString ext (half (Fin (of_int k)))
           = decimal (nat k div 2) @ (if odd k then js ''.5'' else [])"
proof -
  have b: "\<bar>k\<bar> \<le> 2 ^ 53" "\<bar>k div 2\<bar> \<le> 2 ^ 53" "0 \<le> k" using assms by simp_all
  show "numToString ext (Fin (of_int k)) = decimal (nat k)"
    using b numToString_int [of k ext] by simp
  show "numToString ext (half (Fin (of_int k)))
           = decimal (nat k div 2) @ (if odd k then js ''.5'' else [])"
  proof (cases "even k")
    case True
    have "nat (k div 2) = nat k div 2" using b by (simp add: nat_div_distrib)
    moreover have "half (Fin (of_int k)) = Fin (of_int (k div 2))"
      using True by (rule half_even)
    moreover have "numToString ext (Fin (of_int (k div 2))) = decimal (nat (k div 2))"
      using b numToString_int [of "k div 2" ext] by simp
    ultimately show ?thesis using True
      by (simp only: if_False append_Nil2 not_not if_True simp_thms)
  next
    case False
    then show ?thesis
      using b numToString_half_odd [of k ext] by simp
  qed
qed

lemma header_names_differ: "js ''Content-Type'' \<noteq> js ''Cache-Control''"
  by (simp add: js_def)

lemma handler_success:
  assumes "fst (fetchStats ext (parseString (query_repo req))) = Inr stats"
    and "jsonThrows ext stats = None"
  shows "handler ext req =
     (\<lparr>headers = [(js ''Content-Type'', js ''image/svg+xml''),
                  (js ''Cache-Control'', cacheControl ext (cacheSecondsOf ext (query_cache_seconds req)))],
       body = Json stats\<rparr>,
      snd (fetchStats ext (parseString (query_repo req))))"
  using assms header_names_differ
  by (cases "fetchStats ext (parseString (query_repo req))") (simp add: handler_def)

lemma catchBlock_headers:
  "headers (catchBlock ext hs err) =
     setHeader hs (js ''Cache-Control'') (js ''no-cache, no-store, must-revalidate'')"
  by (simp add: catchBlock_def Let_def split: option.splits)

lemma catchBlock_body:
  assumes "messageOf err = Some m" and "secondaryMessageOf err = Some sec"
  shows "body (catchBlock ext hs err) = Sent (renderError ext (toString ext m) (toString ext sec))"
  using assms by (simp add: catchBlock_def)

lemma handler_caught:
  assumes "fst (fetchStats ext (parseString (query_repo req))) = Inl err
         \<or> (\<exists>stats. fst (fetchStats ext (parseString (query_repo req))) = Inr stats
                    \<and> jsonThrows ext stats = Some err)"
  shows "headers (fst (handler ext req)) =
           [(js ''Content-Type'', js ''image/svg+xml''),
            (js ''Cache-Control'', js ''no-cache, no-store, must-revalidate'')]
       \<and> body (fst (handler ext req)) = body (catchBlock ext [] err)
       \<and> snd (handler ext req) = snd (fetchStats ext (parseString (query_repo req)))"
proof -
  have b: "body (catchBlock ext hs err) = body (catchBlock ext [] err)" for hs
    by (simp add: catchBlock_def Let_def split: option.splits)
  from assms show ?thesis
  proof
    assume "fst (fetchStats ext (parseString (query_repo req))) = Inl err"
    then show ?thesis
      using header_names_differ b
      by (cases "fetchStats ext (parseString (query_repo req))")
        (simp add: handler_def catchBlock_headers)
  next
    assume "\<exists>stats. fst (fetchStats ext (parseString (query_repo req))) = Inr stats
                    \<and> jsonThrows ext stats = Some err"
    then obtain stats where "fst (fetchStats ext (parseString (query_repo req))) = Inr stats"
      and "jsonThrows ext stats = Some err" by blast
    then show ?thesis
      using header_names_differ b
      by (cases "fetchStats ext (parseString (query_repo req))")
        (simp add: handler_def catchBlock_headers)
  qed
qed

lemma cacheSecondsOf_no_override:
  assumes "CACHE_SECONDS ext = None \<or> CACHE_SECONDS ext = Some []
           \<or> \<not> truthyNum (parseInt (the (CACHE_SECONDS ext)))"
  shows "cacheSecondsOf ext q =
           clampValue (parseInt (if queryTruthy q then queryToString (the q) else js ''14400''))
             FOUR_HOURS ONE_DAY"
proof (cases "CACHE_SECONDS ext")
  case None
  then show ?thesis by (simp add: cacheSecondsOf_def numToString_FOUR_HOURS)
next
  case (Some v)
  then show ?thesis
    using assms by (auto simp: cacheSecondsOf_def Let_def numToString_FOUR_HOURS)
qed

lemma cacheSecondsOf_override:
  assumes "CACHE_SECONDS ext = Some v" and "v \<noteq> []" and "truthyNum (parseInt v)"
  shows "cacheSecondsOf ext q = parseInt v"
  using assms by (simp add: cacheSecondsOf_def)

text \<open>
  C4. On success (\<open>fetchStats\<close> returns and \<open>res.json\<close> returns) the handler ends with
  the response as the JSON body and \<open>Cache-Control\<close> set to \<open>max-age\<close> half the cache
  duration, \<open>s-maxage\<close> the duration and \<open>stale-while-revalidate=86400\<close>. Without an
  effective \<open>CACHE_SECONDS\<close> the duration is \<open>clampValue\<close> of the parsed
  \<open>cache_seconds\<close> (of \<open>14400\<close> when the parameter is not given) between \<open>14400\<close> and
  \<open>86400\<close>: an integer in that range, printed in decimal, its half with \<open>.5\<close> when it
  is odd. A \<open>CACHE_SECONDS\<close> whose \<open>parseInt\<close> is truthy replaces the duration.
\<close>

theorem handler_cache_control:
  assumes "fst (fetchStats ext (parseString (query_repo req))) = Inr stats"
    and "jsonThrows ext stats = None"
  shows "body (fst (handler ext req)) = Json stats
     \<and> headers (fst (handler ext req)) =
         [(js ''Content-Type'', js ''image/svg+xml''),
          (js ''Cache-Control'',
             js ''max-age='' @ numToString ext (half (cacheSecondsOf ext (query_cache_seconds req)))
             @ js '', s-maxage='' @ numToString ext (cacheSecondsOf ext (query_cache_seconds req))
             @ js '', stale-while-revalidate=86400'')]
     \<and> (CACHE_SECONDS ext = None \<or> CACHE_SECONDS ext = Some []
          \<or> \<not> truthyNum (parseInt (the (CACHE_SECONDS ext))) \<longrightarrow>
          cacheSecondsOf ext (query_cache_seconds req) =
            clampValue
              (parseInt (if queryTruthy (query_cache_seconds req)
                         then queryToString (the (query_cache_seconds req)) else js ''14400''))
              (Fin 14400) (Fin 86400)
          \<and> (\<exists>k. 14400 \<le> k \<and> k \<le> 86400
                \<and> cacheSecondsOf ext (query_cache_seconds req) = Fin (of_int k)
                \<and> numToString ext (cacheSecondsOf ext (query_cache_seconds req)) = decimal (nat k)
                \<and> numToString ext (half (cacheSecondsOf ext (query_cache_seconds req)))
                    = decimal (nat k div 2) @ (if odd k then js ''.5'' else [])))
     \<and> (CACHE_SECONDS ext = None \<and> \<not> queryTruthy (query_cache_seconds req) \<longrightarrow>
          cacheSecondsOf ext (query_cache_seconds req) = Fin 14400)
     \<and> (\<forall>v. CACHE_SECONDS ext = Some v \<and> v \<noteq> [] \<and> truthyNum (parseInt v) \<longrightarrow>
          cacheSecondsOf ext (query_cache_seconds req) = parseInt v)"
proof (intro conjI allI impI)
  show "body (fst (handler ext req)) = Json stats"
    using assms by (simp add: handler_success)
next
  show "headers (fst (handler ext req)) =
         [(js ''Content-Type'', js ''image/svg+xml''),
          (js ''Cache-Control'',
             js ''max-age='' @ numToString ext (half (cacheSecondsOf ext (query_cache_seconds req)))
             @ js '', s-maxage='' @ numToString ext (cacheSecondsOf ext (query_cache_seconds req))
             @ js '', stale-while-revalidate=86400'')]"
    using assms by (simp add: handler_success cacheControl_def numToString_ONE_DAY js_def)
next
  assume a: "CACHE_SECONDS ext = None \<or> CACHE_SECONDS ext = Some []
          \<or> \<not> truthyNum (parseInt (the (CACHE_SECONDS ext)))"
  then show "cacheSecondsOf ext (query_cache_seconds req) =
            clampValue
              (parseInt (if queryTruthy (query_cache_seconds req)
                         then queryToString (the (query_cache_seconds req)) else js ''14400''))
              (Fin 14400) (Fin 86400)"
    using cacheSecondsOf_no_override [of ext] by (simp add: FOUR_HOURS_def ONE_DAY_def)
next
  assume a: "CACHE_SECONDS ext = None \<or> CACHE_SECONDS ext = Some []
          \<or> \<not> truthyNum (parseInt (the (CACHE_SECONDS ext)))"
  obtain k where k: "14400 \<le> k" "k \<le> 86400"
      "clampValue (parseInt (if queryTruthy (query_cache_seconds req)
                         then queryToString (the (query_cache_seconds req)) else js ''14400''))
         FOUR_HOURS ONE_DAY = Fin (of_int k)"
    using clampValue_parsed by blast
  then have "cacheSecondsOf ext (query_cache_seconds req) = Fin (of_int k)"
    using a cacheSecondsOf_no_override [of ext] by simp
  then show "\<exists>k. 14400 \<le> k \<and> k \<le> 86400
                \<and> cacheSecondsOf ext (query_cache_seconds req) = Fin (of_int k)
                \<and> numToString ext (cacheSecondsOf ext (query_cache_seconds req)) = decimal (nat k)
                \<and> numToString ext (half (cacheSecondsOf ext (query_cache_seconds req)))
                    = decimal (nat k div 2) @ (if odd k then js ''.5'' else [])"
    using k numToString_clamped [of k ext] by (intro exI [of _ k]) simp
next
  assume "CACHE_SECONDS ext = None \<and> \<not> queryTruthy (query_cache_seconds req)"
  then show "cacheSecondsOf ext (query_cache_seconds req) = Fin 14400"
    using cacheSecondsOf_no_override [of ext "query_cache_seconds req"]
    by (simp add: parseInt_14400 clampValue_def FOUR_HOURS_def ONE_DAY_def mathMin_Fin mathMax_Fin)
next
  fix v assume "CACHE_SECONDS ext = Some v \<and> v \<noteq> [] \<and> truthyNum (parseInt v)"
  then show "cacheSecondsOf ext (query_cache_seconds req) = parseInt v"
    by (simp add: cacheSecondsOf_override)
qed


text \<open>Evaluation of the examples of the cache duration.\<close>

lemma fetchStats_answering_ok:
  "fetchStats (answering (Inr (okResponse None))) (js ''a/b'')
     = (Inr (okResponse None), [\<lparr>owner = Some (js ''a''), name = Some (js ''b'')\<rparr>])"
proof -
  have "js ''a/b'' \<noteq> []" by (simp add: js_def)
  moreover have "snd (statsFetcher (answering (Inr (okResponse None))) (js ''a/b''))
      = [\<lparr>owner = Some (js ''a''), name = Some (js ''b'')\<rparr>]"
    by (simp add: statsFetcher_def Let_def split_def startsWith_def elemAt_def js_def)
  ultimately show ?thesis
    by (simp add: fetchStats_response [where res = "okResponse None"] statsFetcher_answering
        classify_absent okResponse_def)
qed

lemma fetchStats_answering_ok_override:
  "fst (fetchStats (answering (Inr (okResponse None))\<lparr>CACHE_SECONDS := c\<rparr>) (js ''a/b''))
     = Inr (okResponse None)"
proof -
  have "js ''a/b'' \<noteq> []" by (simp add: js_def)
  moreover have "fst (statsFetcher (answering (Inr (okResponse None))\<lparr>CACHE_SECONDS := c\<rparr>) (js ''a/b''))
      = Inr (okResponse None)"
    by (simp add: statsFetcher_def Let_def answering_def)
  moreover have "errors (okResponse None) = None" by (simp add: okResponse_def)
  ultimately show ?thesis by (rule fetchStats_no_errors)
qed

lemma parseInt_examples:
  "parseInt (js ''10'') = Fin 10" "parseInt (js ''100000'') = Fin 100000"
  "parseInt (js ''15'') = Fin 15"
  by (simp_all add: parseInt_def Let_def isWhiteSpace_def isDigit_def digitsValue_def
      toNumber_def roundNat_def js_def)

lemma numToString_examples:
  "numToString ext (Fin 14400) = js ''14400''" "numToString ext (Fin 7200) = js ''7200''"
  "numToString ext (Fin 86400) = js ''86400''" "numToString ext (Fin 43200) = js ''43200''"
  "numToString ext (Fin 15) = js ''15''" "numToString ext (Fin (15 / 2)) = js ''7.5''"
  using numToString_int [of 14400 ext] numToString_int [of 7200 ext]
    numToString_int [of 86400 ext] numToString_int [of 43200 ext] numToString_int [of 15 ext]
    numToString_half_odd [of 15 ext]
  by (simp_all add: decimal.simps js_def)

lemma cacheSecondsOf_examples:
  "cacheSecondsOf (answering outcome) (Some (QStr (js ''10''))) = Fin 14400"
  "cacheSecondsOf (answering outcome) (Some (QStr (js ''100000''))) = Fin 86400"
  "cacheSecondsOf (answering outcome) None = Fin 14400"
  "cacheSecondsOf (answering outcome\<lparr>CACHE_SECONDS := Some (js ''15'')\<rparr>)
     (Some (QStr (js ''100000''))) = Fin 15"
proof -
  have ne: "js ''10'' \<noteq> []" "js ''100000'' \<noteq> []" "js ''15'' \<noteq> []" by (simp_all add: js_def)
  have env: "CACHE_SECONDS (answering outcome) = None" by (simp add: answering_def)
  show "cacheSecondsOf (answering outcome) (Some (QStr (js ''10''))) = Fin 14400"
    using ne env
    by (simp add: cacheSecondsOf_def parseInt_examples clampValue_def FOUR_HOURS_def
        ONE_DAY_def mathMin_Fin mathMax_Fin)
  show "cacheSecondsOf (answering outcome) (Some (QStr (js ''100000''))) = Fin 86400"
    using ne env
    by (simp add: cacheSecondsOf_def parseInt_examples clampValue_def FOUR_HOURS_def
        ONE_DAY_def mathMin_Fin mathMax_Fin)
  show "cacheSecondsOf (answering outcome) None = Fin 14400"
    using env
    by (simp add: cacheSecondsOf_def numToString_examples parseInt_14400 clampValue_def
        FOUR_HOURS_def ONE_DAY_def mathMin_Fin mathMax_Fin)
  show "cacheSecondsOf (answering outcome\<lparr>CACHE_SECONDS := Some (js ''15'')\<rparr>)
     (Some (QStr (js ''100000''))) = Fin 15"
    using ne by (simp add: cacheSecondsOf_def parseInt_examples truthyNum_def)
qed

theorem handler_cache_control_witness:
  "fst (fetchStats (answering (Inr (okResponse None)))
         (parseString (query_repo \<lparr>query_repo = Some (QStr (js ''a/b'')),
                                   query_cache_seconds = Some (QStr (js ''10''))\<rparr>)))
     = Inr (okResponse None)
   \<and> jsonThrows (answering (Inr (okResponse None))) (okResponse None) = None
   \<and> body (fst (handler (answering (Inr (okResponse None)))
        \<lparr>query_repo = Some (QStr (js ''a/b'')), query_cache_seconds = Some (QStr (js ''10''))\<rparr>))
     = Json (okResponse None)
   \<and> headers (fst (handler (answering (Inr (okResponse None)))
        \<lparr>query_repo = Some (QStr (js ''a/b'')), query_cache_seconds = Some (QStr (js ''10''))\<rparr>))
     = [(js ''Content-Type'', js ''image/svg+xml''),
        (js ''Cache-Control'', js ''max-age=7200, s-maxage=14400, stale-while-revalidate=86400'')]
   \<and> headers (fst (handler (answering (Inr (okResponse None)))
        \<lparr>query_repo = Some (QStr (js ''a/b'')), query_cache_seconds = Some (QStr (js ''100000''))\<rparr>))
     = [(js ''Content-Type'', js ''image/svg+xml''),
        (js ''Cache-Control'', js ''max-age=43200, s-maxage=86400, stale-while-revalidate=86400'')]
   \<and> headers (fst (handler (answering (Inr (okResponse None)))
        \<lparr>query_repo = Some (QStr (js ''a/b'')), query_cache_seconds = None\<rparr>))
     = [(js ''Content-Type'', js ''image/svg+xml''),
        (js ''Cache-Control'', js ''max-age=7200, s-maxage=14400, stale-while-revalidate=86400'')]
   \<and> headers (fst (handler (answering (Inr (okResponse None))\<lparr>CACHE_SECONDS := Some (js ''15'')\<rparr>)
        \<lparr>query_repo = Some (QStr (js ''a/b'')), query_cache_seconds = Some (QStr (js ''100000''))\<rparr>))
     = [(js ''Content-Type'', js ''image/svg+xml''),
        (js ''Cache-Control'', js ''max-age=7.5, s-maxage=15, stale-while-revalidate=86400'')]"
proof -
  have p: "parseString (Some (QStr (js ''a/b''))) = js ''a/b''"
    by (simp add: parseString_def js_def)
  have f: "fst (fetchStats (answering (Inr (okResponse None))) (js ''a/b'')) = Inr (okResponse None)"
    "fst (fetchStats (answering (Inr (okResponse None))\<lparr>CACHE_SECONDS := Some (js ''15'')\<rparr>) (js ''a/b''))
       = Inr (okResponse None)"
    by (simp_all add: fetchStats_answering_ok_override fetchStats_answering_ok)
  have j: "jsonThrows (answering (Inr (okResponse None))) (okResponse None) = None"
    "jsonThrows (answering (Inr (okResponse None))\<lparr>CACHE_SECONDS := Some (js ''15'')\<rparr>)
       (okResponse None) = None"
    by (simp_all add: answering_def)
  show ?thesis
    using f j
      handler_cache_control
        [of "answering (Inr (okResponse None))"
            "\<lparr>query_repo = Some (QStr (js ''a/b'')), query_cache_seconds = Some (QStr (js ''10''))\<rparr>"
            "okResponse None"]
      handler_cache_control
        [of "answering (Inr (okResponse None))"
            "\<lparr>query_repo = Some (QStr (js ''a/b'')), query_cache_seconds = Some (QStr (js ''100000''))\<rparr>"
            "okResponse None"]
      handler_cache_control
        [of "answering (Inr (okResponse None))"
            "\<lparr>query_repo = Some (QStr (js ''a/b'')), query_cache_seconds = None\<rparr>"
            "okResponse None"]
      handler_cache_control
        [of "answering (Inr (okResponse None))\<lparr>CACHE_SECONDS := Some (js ''15'')\<rparr>"
            "\<lparr>query_repo = Some (QStr (js ''a/b'')), query_cache_seconds = Some (QStr (js ''100000''))\<rparr>"
            "okResponse None"]
    by (simp add: p cacheSecondsOf_examples numToString_examples) (simp add: js_def)
qed


lemma missingParamMessage_repo:
  "missingParamMessage [js ''repo'']
     = js ''Missing params '' @ [34] @ js ''repo'' @ [34]
       @ js '' make sure you pass the parameters in URL''"
  by (simp add: missingParamMessage_def js_def)

text \<open>
  C5. When the identifier handed to \<open>fetchStats\<close> is empty, it fails with the
  \<open>MissingParamError\<close> for \<open>repo\<close> and has made no outbound call; the handler answers
  with the error card of that error (its message, and \<open>undefined\<close> as the secondary
  message the error does not have), uncached, and no outbound call was made.
\<close>

theorem handler_missing_repo:
  assumes "parseString (query_repo req) = []"
  shows "fetchStats ext (parseString (query_repo req))
           = (Inl (MissingParamError [js ''repo''] None), [])
       \<and> snd (handler ext req) = []
       \<and> fst (handler ext req) =
           \<lparr>headers = [(js ''Content-Type'', js ''image/svg+xml''),
                        (js ''Cache-Control'', js ''no-cache, no-store, must-revalidate'')],
             body = Sent (renderError ext (missingParamMessage [js ''repo'']) (js ''undefined''))\<rparr>
       \<and> missingParamMessage [js ''repo'']
           = js ''Missing params '' @ [34] @ js ''repo'' @ [34]
             @ js '' make sure you pass the parameters in URL''"
proof -
  have f: "fetchStats ext (parseString (query_repo req))
             = (Inl (MissingParamError [js ''repo''] None), [])"
    using assms by (simp add: fetchStats_def)
  then have "fst (fetchStats ext (parseString (query_repo req)))
             = Inl (MissingParamError [js ''repo''] None)"
    by simp
  then have "handler ext req =
     (\<lparr>headers = [(js ''Content-Type'', js ''image/svg+xml''),
                  (js ''Cache-Control'', js ''no-cache, no-store, must-revalidate'')],
       body = Sent (renderError ext (missingParamMessage [js ''repo'']) (js ''undefined''))\<rparr>,
      [])"
    using f header_names_differ
    by (simp add: handler_def catchBlock_def)
  then show ?thesis using f missingParamMessage_repo by simp
qed

theorem handler_missing_repo_witness:
  "parseString (query_repo \<lparr>query_repo = None, query_cache_seconds = None\<rparr>) = []
   \<and> parseString (query_repo \<lparr>query_repo = Some (QStr []), query_cache_seconds = None\<rparr>) = []
   \<and> parseString (query_repo \<lparr>query_repo = Some (QArr []), query_cache_seconds = None\<rparr>) = []
   \<and> fetchStats (answering (Inr (okResponse None))) [] = (Inl (MissingParamError [js ''repo''] None), [])
   \<and> handler (answering (Inr (okResponse None))) \<lparr>query_repo = None, query_cache_seconds = None\<rparr>
       = (\<lparr>headers = [(js ''Content-Type'', js ''image/svg+xml''),
                        (js ''Cache-Control'', js ''no-cache, no-store, must-revalidate'')],
             body = Sent (renderError (answering (Inr (okResponse None)))
                            (js ''Missing params '' @ [34] @ js ''repo'' @ [34]
                             @ js '' make sure you pass the parameters in URL'')
                            (js ''undefined''))\<rparr>, [])
   \<and> snd (handler (answering (Inr (okResponse None)))
            \<lparr>query_repo = Some (QArr []), query_cache_seconds = None\<rparr>) = []"
proof -
  have p: "parseString None = []" "parseString (Some (QStr [])) = []"
    "parseString (Some (QArr [])) = []"
    by (simp_all add: parseString_def)
  show ?thesis
    using p
      handler_missing_repo
        [of "\<lparr>query_repo = None, query_cache_seconds = None\<rparr>" "answering (Inr (okResponse None))"]
      handler_missing_repo
        [of "\<lparr>query_repo = Some (QArr []), query_cache_seconds = None\<rparr>"
            "answering (Inr (okResponse None))"]
    by (simp add: prod_eq_iff)
qed

text \<open>What \<open>encodeHTML\<close> puts out.\<close>

lemma set_decimal: "set (decimal n) \<subseteq> {48..57}"
proof (induction n rule: decimal.induct)
  case (1 n)
  show ?case
  proof (cases "n < 10")
    case True
    then show ?thesis by (subst decimal.simps) simp
  next
    case False
    have "n mod 10 < 10" by simp
    then have "48 + n mod 10 \<in> {48..57}" by simp
    then show ?thesis using False 1 by (subst decimal.simps) simp
  qed
qed

lemma entity_units:
  "set (js ''&#'' @ decimal c @ js '';'') \<subseteq> {38, 35, 59} \<union> {48..57}"
  using set_decimal [of c] by (auto simp: js_def)

lemma encodeEntities_no_hash:
  assumes "35 \<notin> set s"
  shows "encodeEntities ext s =
           concat (map (\<lambda>c. if inClass ext c then js ''&#'' @ decimal c @ js '';'' else [c]) s)"
  using assms
proof (induction s)
  case Nil
  then show ?case by simp
next
  case (Cons c cs)
  then have "cs = [] \<or> hd cs \<noteq> 35" by (cases cs) auto
  then show ?case using Cons by auto
qed

lemma piece_units:
  assumes "x \<in> set (if inClass ext c then js ''&#'' @ decimal c @ js '';'' else [c])"
  shows "(x = c \<and> \<not> inClass ext c) \<or> x \<in> {38, 35, 59} \<union> {48..57}"
proof (cases "inClass ext c")
  case True
  then have "x \<in> set (js ''&#'' @ decimal c @ js '';'')" using assms by simp
  then show ?thesis using entity_units by blast
next
  case False
  then show ?thesis using assms by simp
qed

lemma pieces_units:
  assumes "x \<in> set (concat (map (\<lambda>c. if inClass ext c then js ''&#'' @ decimal c @ js '';'' else [c]) s))"
  shows "(x \<in> set s \<and> \<not> inClass ext x) \<or> x \<in> {38, 35, 59} \<union> {48..57}"
proof -
  define f where "f = (\<lambda>c. if inClass ext c then js ''&#'' @ decimal c @ js '';'' else [c])"
  have "x \<in> set (concat (map f s))" using assms by (simp only: f_def)
  then obtain c where "c \<in> set s" and "x \<in> set (f c)"
    unfolding set_concat set_map by blast
  then show ?thesis using piece_units [of x ext c] unfolding f_def by blast
qed

lemma encodeHTML_no_hash:
  assumes "35 \<notin> set s" and "8 \<notin> set s"
  shows "encodeHTML ext s =
           concat (map (\<lambda>c. if inClass ext c then js ''&#'' @ decimal c @ js '';'' else [c]) s)"
proof -
  have "x \<noteq> 8"
    if "x \<in> set (concat (map (\<lambda>c. if inClass ext c then js ''&#'' @ decimal c @ js '';'' else [c]) s))"
    for x
    using pieces_units [OF that] assms(2) by auto
  then have "filter (\<lambda>c. c \<noteq> 8)
        (concat (map (\<lambda>c. if inClass ext c then js ''&#'' @ decimal c @ js '';'' else [c]) s))
      = concat (map (\<lambda>c. if inClass ext c then js ''&#'' @ decimal c @ js '';'' else [c]) s)"
    unfolding filter_id_conv by blast
  moreover have "encodeEntities ext s =
      concat (map (\<lambda>c. if inClass ext c then js ''&#'' @ decimal c @ js '';'' else [c]) s)"
    using assms(1) by (rule encodeEntities_no_hash)
  ultimately show ?thesis
    unfolding encodeHTML_def by metis
qed

lemma encodeHTML_no_angle:
  assumes "35 \<notin> set s"
  shows "60 \<notin> set (encodeHTML ext s)" and "62 \<notin> set (encodeHTML ext s)"
proof -
  have "x \<noteq> 60 \<and> x \<noteq> 62"
    if "x \<in> set (concat (map (\<lambda>c. if inClass ext c then js ''&#'' @ decimal c @ js '';'' else [c]) s))"
    for x
    using pieces_units [OF that] by (auto simp: inClass_def)
  moreover have "encodeEntities ext s =
      concat (map (\<lambda>c. if inClass ext c then js ''&#'' @ decimal c @ js '';'' else [c]) s)"
    using assms by (rule encodeEntities_no_hash)
  ultimately have "60 \<notin> set (encodeEntities ext s) \<and> 62 \<notin> set (encodeEntities ext s)"
    by metis
  then show "60 \<notin> set (encodeHTML ext s)" and "62 \<notin> set (encodeHTML ext s)"
    by (simp_all add: encodeHTML_def)
qed


lemma renderError_text:
  \<open>renderError ext m sec =
           js ''\<newline>    <svg width="576.5" height="120" viewBox="0 0 576.5 120" fill="none" xmlns="http://www.w3.org/2000/svg">\<newline>''
             @ js ''    <style>\<newline>''
             @ js ''    .text { font: 600 16px 'Segoe UI', Ubuntu, Sans-Serif; fill: #2F80ED }\<newline>''
             @ js ''    .small { font: 600 12px 'Segoe UI', Ubuntu, Sans-Serif; fill: #252525 }\<newline>''
             @ js ''    .gray { fill: #858585 }\<newline>''
             @ js ''    </style>\<newline>''
             @ js ''    <rect x="0.5" y="0.5" width="575.5" height="99%" rx="4.5" fill="#FFFEFE" stroke="#E4E2E2"/>\<newline>''
             @ js ''    <text x="25" y="45" class="text">Something went wrong! file an issue at moonrailgun/github-repository-card</text>\<newline>''
             @ js ''    <text data-testid="message" x="25" y="55" class="text small">\<newline>''
             @ js ''      <tspan x="25" dy="18">'' 
             @ encodeHTML ext m
             @ js ''</tspan>\<newline>''
             @ js ''      <tspan x="25" dy="18" class="gray">'' 
             @ sec
             @ js ''</tspan>\<newline>''
             @ js ''    </text>\<newline>''
             @ js ''    </svg>\<newline>''
             @ js ''  '' \<close>
  by (simp add: renderError_def errorCardHead_text errorCardMiddle_def errorCardTail_def)

text \<open>
  C7, as the code has it. A value caught by the handler, thrown by \<open>fetchStats\<close> or by
  \<open>res.json\<close> after \<open>fetchStats\<close> returned, that is not \<open>null\<close> or \<open>undefined\<close>: the
  handler ends with \<open>Cache-Control: no-cache, no-store, must-revalidate\<close> and sends the
  error card, the fixed SVG text around \<open>encodeHTML\<close> of \<open>String(err.message)\<close> and,
  as it is, \<open>String(err.secondaryMessage)\<close> (the text \<open>undefined\<close> for an error without
  one). \<open>encodeHTML\<close> turns every code unit of its class that is not directly followed
  by \<open>#\<close> into a decimal character reference and leaves one followed by \<open>#\<close> as it
  is: on a message without \<open>#\<close> and backspace it encodes every code unit of the class,
  and no \<open><\<close> or \<open>>\<close> is left in a message without \<open>#\<close>.
\<close>

theorem handler_error_response:
  assumes \<open>fst (fetchStats ext (parseString (query_repo req))) = Inl err
         \<or> (\<exists>stats. fst (fetchStats ext (parseString (query_repo req))) = Inr stats
                    \<and> jsonThrows ext stats = Some err)\<close>
    and \<open>err \<noteq> ThrownNull\<close> and \<open>err \<noteq> ThrownUndefined\<close>
  shows \<open>headers (fst (handler ext req)) =
           [(js ''Content-Type'', js ''image/svg+xml''),
            (js ''Cache-Control'', js ''no-cache, no-store, must-revalidate'')]
       \<and> (\<forall>ps. err = MissingParamError ps None \<longrightarrow>
             body (fst (handler ext req)) =
               Sent (renderError ext (missingParamMessage ps) (js ''undefined'')))
       \<and> (\<forall>ps t. err = MissingParamError ps (Some t) \<longrightarrow>
             body (fst (handler ext req)) = Sent (renderError ext (missingParamMessage ps) t))
       \<and> (\<forall>m ty t. err = CustomError m ty (Str t) \<longrightarrow>
             body (fst (handler ext req)) = Sent (renderError ext m t))
       \<and> (\<forall>m ty k. err = CustomError m ty (Inherited k) \<longrightarrow>
             body (fst (handler ext req)) = Sent (renderError ext m (inheritedToString ext k)))
       \<and> (\<forall>m ty. err = CustomError m ty Undefined \<longrightarrow>
             body (fst (handler ext req)) = Sent (renderError ext m (js ''undefined'')))
       \<and> (\<forall>m. err = TypeError m \<longrightarrow>
             body (fst (handler ext req)) = Sent (renderError ext m (js ''undefined'')))
       \<and> (\<forall>m sec. err = OtherError m sec \<longrightarrow>
             body (fst (handler ext req)) =
               Sent (renderError ext (toString ext m) (toString ext sec)))
       \<and> toString ext Undefined = js ''undefined''
       \<and> (\<forall>t. toString ext (Str t) = t)
       \<and> (\<forall>k. toString ext (Inherited k) = inheritedToString ext k)
       \<and> (\<forall>m sec. renderError ext m sec =
             js ''\<newline>    <svg width="576.5" height="120" viewBox="0 0 576.5 120" fill="none" xmlns="http://www.w3.org/2000/svg">\<newline>''
             @ js ''    <style>\<newline>''
             @ js ''    .text { font: 600 16px 'Segoe UI', Ubuntu, Sans-Serif; fill: #2F80ED }\<newline>''
             @ js ''    .small { font: 600 12px 'Segoe UI', Ubuntu, Sans-Serif; fill: #252525 }\<newline>''
             @ js ''    .gray { fill: #858585 }\<newline>''
             @ js ''    </style>\<newline>''
             @ js ''    <rect x="0.5" y="0.5" width="575.5" height="99%" rx="4.5" fill="#FFFEFE" stroke="#E4E2E2"/>\<newline>''
             @ js ''    <text x="25" y="45" class="text">Something went wrong! file an issue at moonrailgun/github-repository-card</text>\<newline>''
             @ js ''    <text data-testid="message" x="25" y="55" class="text small">\<newline>''
             @ js ''      <tspan x="25" dy="18">'' 
             @ encodeHTML ext m
             @ js ''</tspan>\<newline>''
             @ js ''      <tspan x="25" dy="18" class="gray">'' 
             @ sec
             @ js ''</tspan>\<newline>''
             @ js ''    </text>\<newline>''
             @ js ''    </svg>\<newline>''
             @ js ''  '' )
       \<and> (\<forall>m. 35 \<notin> set m \<and> 8 \<notin> set m \<longrightarrow>
             encodeHTML ext m =
               concat (map (\<lambda>c. if (160 \<le> c \<and> c \<le> 39321) \<or> c = 60 \<or> c = 62 \<or> c = 38
                                     \<or> foldsIntoClass ext c
                                  then js ''&#'' @ decimal c @ js '';'' else [c]) m))
       \<and> (\<forall>m. 35 \<notin> set m \<longrightarrow> 60 \<notin> set (encodeHTML ext m) \<and> 62 \<notin> set (encodeHTML ext m))\<close>
proof -
  have c: "headers (fst (handler ext req)) =
           [(js ''Content-Type'', js ''image/svg+xml''),
            (js ''Cache-Control'', js ''no-cache, no-store, must-revalidate'')]"
    and b: "body (fst (handler ext req)) = body (catchBlock ext [] err)"
    using handler_caught [OF assms(1)] by simp_all
  have e: "encodeHTML ext m =
               concat (map (\<lambda>c. if (160 \<le> c \<and> c \<le> 39321) \<or> c = 60 \<or> c = 62 \<or> c = 38
                                     \<or> foldsIntoClass ext c
                                  then js ''&#'' @ decimal c @ js '';'' else [c]) m)"
    if "35 \<notin> set m \<and> 8 \<notin> set m" for m
    using that encodeHTML_no_hash [of m ext] by (simp add: inClass_def)
  show ?thesis
  proof (intro conjI allI impI)
    show "headers (fst (handler ext req)) =
           [(js ''Content-Type'', js ''image/svg+xml''),
            (js ''Cache-Control'', js ''no-cache, no-store, must-revalidate'')]"
      by (rule c)
  next
    fix ps assume "err = MissingParamError ps None"
    then show "body (fst (handler ext req)) =
               Sent (renderError ext (missingParamMessage ps) (js ''undefined''))"
      using b by (simp add: catchBlock_body)
  next
    fix ps t assume "err = MissingParamError ps (Some t)"
    then show "body (fst (handler ext req)) = Sent (renderError ext (missingParamMessage ps) t)"
      using b by (simp add: catchBlock_body)
  next
    fix m ty t assume "err = CustomError m ty (Str t)"
    then show "body (fst (handler ext req)) = Sent (renderError ext m t)"
      using b by (simp add: catchBlock_body)
  next
    fix m ty k assume "err = CustomError m ty (Inherited k)"
    then show "body (fst (handler ext req)) = Sent (renderError ext m (inheritedToString ext k))"
      using b by (simp add: catchBlock_body)
  next
    fix m ty assume "err = CustomError m ty Undefined"
    then show "body (fst (handler ext req)) = Sent (renderError ext m (js ''undefined''))"
      using b by (simp add: catchBlock_body)
  next
    fix m assume "err = TypeError m"
    then show "body (fst (handler ext req)) = Sent (renderError ext m (js ''undefined''))"
      using b by (simp add: catchBlock_body)
  next
    fix m sec assume "err = OtherError m sec"
    then show "body (fst (handler ext req)) =
               Sent (renderError ext (toString ext m) (toString ext sec))"
      using b by (simp add: catchBlock_body)
  next
    show "toString ext Undefined = js ''undefined''" by simp
  next
    fix t show "toString ext (Str t) = t" by simp
  next
    fix k show "toString ext (Inherited k) = inheritedToString ext k" by simp
  next
    fix m sec show \<open>renderError ext m sec =
             js ''\<newline>    <svg width="576.5" height="120" viewBox="0 0 576.5 120" fill="none" xmlns="http://www.w3.org/2000/svg">\<newline>''
             @ js ''    <style>\<newline>''
             @ js ''    .text { font: 600 16px 'Segoe UI', Ubuntu, Sans-Serif; fill: #2F80ED }\<newline>''
             @ js ''    .small { font: 600 12px 'Segoe UI', Ubuntu, Sans-Serif; fill: #252525 }\<newline>''
             @ js ''    .gray { fill: #858585 }\<newline>''
             @ js ''    </style>\<newline>''
             @ js ''    <rect x="0.5" y="0.5" width="575.5" height="99%" rx="4.5" fill="#FFFEFE" stroke="#E4E2E2"/>\<newline>''
             @ js ''    <text x="25" y="45" class="text">Something went wrong! file an issue at moonrailgun/github-repository-card</text>\<newline>''
             @ js ''    <text data-testid="message" x="25" y="55" class="text small">\<newline>''
             @ js ''      <tspan x="25" dy="18">'' 
             @ encodeHTML ext m
             @ js ''</tspan>\<newline>''
             @ js ''      <tspan x="25" dy="18" class="gray">'' 
             @ sec
             @ js ''</tspan>\<newline>''
             @ js ''    </text>\<newline>''
             @ js ''    </svg>\<newline>''
             @ js ''  '' \<close>
      by (rule renderError_text)
  next
    fix m :: jsstring assume "35 \<notin> set m \<and> 8 \<notin> set m"
    then show "encodeHTML ext m =
               concat (map (\<lambda>c. if (160 \<le> c \<and> c \<le> 39321) \<or> c = 60 \<or> c = 62 \<or> c = 38
                                     \<or> foldsIntoClass ext c
                                  then js ''&#'' @ decimal c @ js '';'' else [c]) m)"
      by (rule e)
  next
    fix m :: jsstring assume "35 \<notin> set m"
    then show "60 \<notin> set (encodeHTML ext m)" by (rule encodeHTML_no_angle)
  next
    fix m :: jsstring assume "35 \<notin> set m"
    then show "62 \<notin> set (encodeHTML ext m)" by (rule encodeHTML_no_angle)
  qed
qed


lemma encodeHTML_examples:
  "encodeHTML (answering outcome) (js ''a<b'') = js ''a&#60;b''"
  "encodeHTML (answering outcome) (js ''<#'') = js ''<#''"
  "encodeHTML (answering outcome\<lparr>jsonThrows := j\<rparr>) (js ''Converting circular structure to JSON'')
     = js ''Converting circular structure to JSON''"
  by (simp_all add: encodeHTML_def inClass_def answering_def decimal.simps js_def)

theorem handler_error_response_witness:
  \<open>fst (fetchStats
         (answering (Inl (CustomError (js ''a<b'') MAX_RETRY
            (Str (js ''Please add an env variable called PAT_1 with your github token in vercel'')))))
         (parseString (query_repo \<lparr>query_repo = Some (QStr (js ''a/b'')), query_cache_seconds = None\<rparr>)))
     = Inl (CustomError (js ''a<b'') MAX_RETRY
            (Str (js ''Please add an env variable called PAT_1 with your github token in vercel'')))
   \<and> headers (fst (handler
         (answering (Inl (CustomError (js ''a<b'') MAX_RETRY
            (Str (js ''Please add an env variable called PAT_1 with your github token in vercel'')))))
         \<lparr>query_repo = Some (QStr (js ''a/b'')), query_cache_seconds = None\<rparr>))
     = [(js ''Content-Type'', js ''image/svg+xml''),
        (js ''Cache-Control'', js ''no-cache, no-store, must-revalidate'')]
   \<and> body (fst (handler
         (answering (Inl (CustomError (js ''a<b'') MAX_RETRY
            (Str (js ''Please add an env variable called PAT_1 with your github token in vercel'')))))
         \<lparr>query_repo = Some (QStr (js ''a/b'')), query_cache_seconds = None\<rparr>))
     = Sent (js ''\<newline>    <svg width="576.5" height="120" viewBox="0 0 576.5 120" fill="none" xmlns="http://www.w3.org/2000/svg">\<newline>''
             @ js ''    <style>\<newline>''
             @ js ''    .text { font: 600 16px 'Segoe UI', Ubuntu, Sans-Serif; fill: #2F80ED }\<newline>''
             @ js ''    .small { font: 600 12px 'Segoe UI', Ubuntu, Sans-Serif; fill: #252525 }\<newline>''
             @ js ''    .gray { fill: #858585 }\<newline>''
             @ js ''    </style>\<newline>''
             @ js ''    <rect x="0.5" y="0.5" width="575.5" height="99%" rx="4.5" fill="#FFFEFE" stroke="#E4E2E2"/>\<newline>''
             @ js ''    <text x="25" y="45" class="text">Something went wrong! file an issue at moonrailgun/github-repository-card</text>\<newline>''
             @ js ''    <text data-testid="message" x="25" y="55" class="text small">\<newline>''
             @ js ''      <tspan x="25" dy="18">'' 
             @ js ''a&#60;b''
             @ js ''</tspan>\<newline>''
             @ js ''      <tspan x="25" dy="18" class="gray">'' 
             @ js ''Please add an env variable called PAT_1 with your github token in vercel''
             @ js ''</tspan>\<newline>''
             @ js ''    </text>\<newline>''
             @ js ''    </svg>\<newline>''
             @ js ''  '' )
   \<and> fst (fetchStats
         (answering (Inr (okResponse None))
            \<lparr>jsonThrows := \<lambda>s. Some (TypeError (js ''Converting circular structure to JSON''))\<rparr>)
         (parseString (query_repo \<lparr>query_repo = Some (QStr (js ''a/b'')), query_cache_seconds = None\<rparr>)))
     = Inr (okResponse None)
   \<and> jsonThrows
         (answering (Inr (okResponse None))
            \<lparr>jsonThrows := \<lambda>s. Some (TypeError (js ''Converting circular structure to JSON''))\<rparr>)
         (okResponse None)
     = Some (TypeError (js ''Converting circular structure to JSON''))
   \<and> headers (fst (handler
         (answering (Inr (okResponse None))
            \<lparr>jsonThrows := \<lambda>s. Some (TypeError (js ''Converting circular structure to JSON''))\<rparr>)
         \<lparr>query_repo = Some (QStr (js ''a/b'')), query_cache_seconds = None\<rparr>))
     = [(js ''Content-Type'', js ''image/svg+xml''),
        (js ''Cache-Control'', js ''no-cache, no-store, must-revalidate'')]
   \<and> body (fst (handler
         (answering (Inr (okResponse None))
            \<lparr>jsonThrows := \<lambda>s. Some (TypeError (js ''Converting circular structure to JSON''))\<rparr>)
         \<lparr>query_repo = Some (QStr (js ''a/b'')), query_cache_seconds = None\<rparr>))
     = Sent (js ''\<newline>    <svg width="576.5" height="120" viewBox="0 0 576.5 120" fill="none" xmlns="http://www.w3.org/2000/svg">\<newline>''
             @ js ''    <style>\<newline>''
             @ js ''    .text { font: 600 16px 'Segoe UI', Ubuntu, Sans-Serif; fill: #2F80ED }\<newline>''
             @ js ''    .small { font: 600 12px 'Segoe UI', Ubuntu, Sans-Serif; fill: #252525 }\<newline>''
             @ js ''    .gray { fill: #858585 }\<newline>''
             @ js ''    </style>\<newline>''
             @ js ''    <rect x="0.5" y="0.5" width="575.5" height="99%" rx="4.5" fill="#FFFEFE" stroke="#E4E2E2"/>\<newline>''
             @ js ''    <text x="25" y="45" class="text">Something went wrong! file an issue at moonrailgun/github-repository-card</text>\<newline>''
             @ js ''    <text data-testid="message" x="25" y="55" class="text small">\<newline>''
             @ js ''      <tspan x="25" dy="18">'' 
             @ js ''Converting circular structure to JSON''
             @ js ''</tspan>\<newline>''
             @ js ''      <tspan x="25" dy="18" class="gray">'' 
             @ js ''undefined''
             @ js ''</tspan>\<newline>''
             @ js ''    </text>\<newline>''
             @ js ''    </svg>\<newline>''
             @ js ''  '' )\<close>
proof -
  let ?e = "CustomError (js ''a<b'') MAX_RETRY
            (Str (js ''Please add an env variable called PAT_1 with your github token in vercel''))"
  let ?t = "TypeError (js ''Converting circular structure to JSON'')"
  let ?A = "answering (Inl ?e)"
  let ?B = "answering (Inr (okResponse None))\<lparr>jsonThrows := \<lambda>s. Some ?t\<rparr>"
  let ?req = "\<lparr>query_repo = Some (QStr (js ''a/b'')), query_cache_seconds = None\<rparr>"
  have p: "parseString (query_repo ?req) = js ''a/b''" and ne: "js ''a/b'' \<noteq> []"
    by (simp_all add: parseString_def js_def)
  have f1: "fst (fetchStats ?A (parseString (query_repo ?req))) = Inl ?e"
    unfolding p using ne
    by (simp add: fetchStats_thrown [where err = ?e] statsFetcher_answering)
  have "fst (statsFetcher ?B (js ''a/b'')) = Inr (okResponse None)"
    by (simp add: statsFetcher_def Let_def answering_def)
  moreover have "errors (okResponse None) = None" by (simp add: okResponse_def)
  ultimately have "fst (fetchStats ?B (js ''a/b'')) = Inr (okResponse None)"
    using ne by (intro fetchStats_no_errors)
  then have f2: "fst (fetchStats ?B (parseString (query_repo ?req))) = Inr (okResponse None)"
    by (simp only: p)
  have j: "jsonThrows ?B (okResponse None) = Some ?t" by simp
  have c2: "fst (fetchStats ?B (parseString (query_repo ?req))) = Inl ?t
      \<or> (\<exists>stats. fst (fetchStats ?B (parseString (query_repo ?req))) = Inr stats
                 \<and> jsonThrows ?B stats = Some ?t)"
    using f2 j by blast
  have w1: "headers (fst (handler ?A ?req)) =
        [(js ''Content-Type'', js ''image/svg+xml''),
         (js ''Cache-Control'', js ''no-cache, no-store, must-revalidate'')]
      \<and> body (fst (handler ?A ?req)) =
        Sent (renderError ?A (js ''a<b'')
          (js ''Please add an env variable called PAT_1 with your github token in vercel''))"
    using handler_error_response [of ?A ?req ?e] f1 by simp
  have w2: "headers (fst (handler ?B ?req)) =
        [(js ''Content-Type'', js ''image/svg+xml''),
         (js ''Cache-Control'', js ''no-cache, no-store, must-revalidate'')]
      \<and> body (fst (handler ?B ?req)) =
        Sent (renderError ?B (js ''Converting circular structure to JSON'') (js ''undefined''))"
    using handler_error_response [of ?B ?req ?t, OF c2] by simp
  show ?thesis
    using f1 f2 j w1 w2
    by (simp only: renderError_text encodeHTML_examples simp_thms)
qed

text \<open>
  A \<open>NOT_FOUND\<close> entry whose message is \<open><#\<close>: the card holds \<open><#\<close> as it is, not its
  character reference. A retryer that throws \<open>null\<close>: the \<open>catch\<close> block throws on the
  read of \<open>message\<close> and no card is sent.
\<close>

theorem handler_error_response_counterexample:
  "body (fst (handler
      (answering (Inr (okResponse (Some [\<lparr>type = Some (js ''NOT_FOUND''), message = Some (js ''<#'')\<rparr>]))))
      \<lparr>query_repo = Some (QStr (js ''a/b'')), query_cache_seconds = None\<rparr>))
     = Sent (errorCardHead
               (answering (Inr (okResponse (Some [\<lparr>type = Some (js ''NOT_FOUND''), message = Some (js ''<#'')\<rparr>]))))
             @ js ''<#'' @ errorCardMiddle
             @ js ''Make sure the provided username is not an organization'' @ errorCardTail)
   \<and> js ''<#'' \<noteq> js ''&#60;#''
   \<and> body (fst (handler (answering (Inl ThrownNull))
      \<lparr>query_repo = Some (QStr (js ''a/b'')), query_cache_seconds = None\<rparr>))
     = Threw (TypeError
         (js ''Cannot read properties of null (reading '' @ [39] @ js ''message'' @ [39] @ js '')''))"
proof -
  let ?res = "okResponse (Some [\<lparr>type = Some (js ''NOT_FOUND''), message = Some (js ''<#'')\<rparr>])"
  let ?e = "CustomError (js ''<#'') USER_NOT_FOUND
              (Str (js ''Make sure the provided username is not an organization''))"
  let ?req = "\<lparr>query_repo = Some (QStr (js ''a/b'')), query_cache_seconds = None\<rparr>"
  have p: "parseString (query_repo ?req) = js ''a/b''" and ne: "js ''a/b'' \<noteq> []"
    and m: "js ''<#'' \<noteq> []" and d: "js ''<#'' \<noteq> js ''&#60;#''"
    by (simp_all add: parseString_def js_def)
  have "fst (fetchStats (answering (Inr ?res)) (js ''a/b'')) = classify (answering (Inr ?res)) ?res"
    using ne by (simp add: fetchStats_response statsFetcher_answering)
  also have "\<dots> = Inl ?e"
    using m
    by (subst classify_not_found
          [where es = "[]" and e = "\<lparr>type = Some (js ''NOT_FOUND''), message = Some (js ''<#'')\<rparr>"])
      (simp_all add: okResponse_def)
  finally have f1: "fst (fetchStats (answering (Inr ?res)) (parseString (query_repo ?req))) = Inl ?e"
    by (simp only: p)
  then have "body (fst (handler (answering (Inr ?res)) ?req))
               = body (catchBlock (answering (Inr ?res)) [] ?e)"
    using handler_caught [of "answering (Inr ?res)" ?req ?e] by blast
  then have b1: "body (fst (handler (answering (Inr ?res)) ?req))
      = Sent (errorCardHead (answering (Inr ?res)) @ js ''<#'' @ errorCardMiddle
              @ js ''Make sure the provided username is not an organization'' @ errorCardTail)"
    by (simp add: catchBlock_body renderError_def encodeHTML_examples)
  have "fst (fetchStats (answering (Inl ThrownNull)) (parseString (query_repo ?req))) = Inl ThrownNull"
    unfolding p using ne
    by (simp add: fetchStats_thrown [where err = ThrownNull] statsFetcher_answering)
  then have "body (fst (handler (answering (Inl ThrownNull)) ?req))
               = body (catchBlock (answering (Inl ThrownNull)) [] ThrownNull)"
    using handler_caught [of "answering (Inl ThrownNull)" ?req ThrownNull] by blast
  then have b2: "body (fst (handler (answering (Inl ThrownNull)) ?req))
      = Threw (TypeError
         (js ''Cannot read properties of null (reading '' @ [39] @ js ''message'' @ [39] @ js '')''))"
    by (simp add: catchBlock_def readThrows_def answering_def)
  show ?thesis using b1 d b2 by simp
qed

section \<open>Further properties of fetchStats and CustomError\<close>

text \<open>
  A response whose body has no \<open>errors\<close> field is the result of \<open>fetchStats\<close>,
  unchanged, and the one outbound call made is the call of the retryer with the
  variables split from the identifier.
\<close>

theorem fetchStats_passes_through:
  assumes "repo \<noteq> []" and "fst (statsFetcher ext repo) = Inr res" and "errors res = None"
  shows "fetchStats ext repo = (Inr res, snd (statsFetcher ext repo))
       \<and> length (snd (fetchStats ext repo)) = 1"
  using assms by (simp add: fetchStats_response classify_absent) (simp add: statsFetcher_def Let_def)

theorem fetchStats_passes_through_witness:
  "js ''a/b'' \<noteq> []
   \<and> fst (statsFetcher (answering (Inr (okResponse None))) (js ''a/b'')) = Inr (okResponse None)
   \<and> errors (okResponse None) = None
   \<and> fetchStats (answering (Inr (okResponse None))) (js ''a/b'')
       = (Inr (okResponse None), [\<lparr>owner = Some (js ''a''), name = Some (js ''b'')\<rparr>])"
proof -
  have "snd (statsFetcher (answering (Inr (okResponse None))) (js ''a/b''))
      = [\<lparr>owner = Some (js ''a''), name = Some (js ''b'')\<rparr>]"
    by (simp add: statsFetcher_def Let_def split_def startsWith_def elemAt_def js_def)
  moreover have "js ''a/b'' \<noteq> []" by (simp add: js_def)
  ultimately show ?thesis
    using fetchStats_passes_through
      [of "js ''a/b''" "answering (Inr (okResponse None))" "okResponse None"]
    by (simp add: statsFetcher_answering okResponse_def)
qed

text \<open>
  A \<open>CustomError\<close> whose type is neither a key of \<open>SECONDARY_ERROR_MESSAGES\<close> nor the
  name of a member of \<open>Object.prototype\<close> has the type itself as its secondary message,
  and that is the text the error card shows for it.
\<close>

theorem newCustomError_secondary_is_type:
  assumes "ty \<notin> fst ` set SECONDARY_ERROR_MESSAGES" and "ty \<notin> set objectPrototypeNames"
  shows "secondaryMessageOf (newCustomError msg ty) = Some (Str ty)
       \<and> toString ext (Str ty) = ty"
  using assms by (simp add: newCustomError_other_type)

theorem newCustomError_secondary_is_type_witness:
  "js ''OK'' \<notin> fst ` set SECONDARY_ERROR_MESSAGES \<and> js ''OK'' \<notin> set objectPrototypeNames
   \<and> secondaryMessageOf (newCustomError (Some (js ''Bad credentials'')) (js ''OK''))
       = Some (Str (js ''OK''))"
  using OK_is_other_type
    newCustomError_secondary_is_type
      [of "js ''OK''" "Some (js ''Bad credentials'')" "answering (Inr (okResponse None))"]
  by simp

section \<open>Rounding in parseInt\<close>

text \<open>
  Integers just above \<open>2 ^ 53\<close> are read to the nearest double, ties to the even one.
\<close>

lemma floorlog_2_53_range:
  assumes "2 ^ 53 \<le> m" and "m < 2 ^ 54"
  shows "floorlog 2 m = 54"
proof (rule antisym)
  show "floorlog 2 m \<le> 54" using assms by (intro floorlog_leI) simp_all
  show "54 \<le> floorlog 2 m" using assms by (intro floorlog_geI) simp_all
qed

lemma parseInt_rounds:
  "parseInt (js ''9007199254740993'') = Fin 9007199254740992"
  "parseInt (js ''9007199254740995'') = Fin 9007199254740996"
  "parseInt (js ''-9007199254740993'') = Fin (- 9007199254740992)"
  by (simp_all add: parseInt_def Let_def isWhiteSpace_def isDigit_def digitsValue_def
      toNumber_def roundNat_def floorlog_2_53_range js_def)

end
